theory Spec2Isabelle
  imports Main
begin

section \<open>Go values shared by the handlers\<close>

text \<open>
  A Go string holding valid UTF-8 text is modelled by the sequence of its code points
  (\<open>for _, c := range s\<close> visits exactly these runes); \<open>len(s)\<close> is the number of
  bytes of the UTF-8 encoding, given by \<open>byteLen\<close>. On valid UTF-8 a substring
  test on the bytes (\<open>strings.Contains\<close>) agrees with the test on the code points.
\<close>

type_synonym rune = int
type_synonym gostring = "rune list"

definition runeLen :: "rune \<Rightarrow> nat" where
  "runeLen r = (if r < 0x80 then 1 else if r < 0x800 then 2 else if r < 0x10000 then 3 else 4)"

definition byteLen :: "gostring \<Rightarrow> nat" where
  "byteLen s = sum_list (map runeLen s)"

definition go :: "string \<Rightarrow> gostring" where
  "go s = map of_char s"

fun HasPrefix :: "gostring \<Rightarrow> gostring \<Rightarrow> bool" where
  "HasPrefix s [] = True"
| "HasPrefix [] (p # ps) = False"
| "HasPrefix (c # cs) (p # ps) = (c = p \<and> HasPrefix cs ps)"

fun Contains :: "gostring \<Rightarrow> gostring \<Rightarrow> bool" where
  "Contains [] sub = (sub = [])"
| "Contains (c # cs) sub = (HasPrefix (c # cs) sub \<or> Contains cs sub)"

text \<open>
  Go errors. \<open>validate.Error\<close> is a map from field name to messages, kept here as
  an association list; \<open>Wrap\<close> is \<open>fmt.Errorf("...: %w", err)\<close>.
\<close>

datatype error =
    ValidateError "(string \<times> string list) list"
  | ErrNotFound
  | ErrNotModified
  | ErrDeadlineExceeded
  | ErrCanceled
  | ErrUnauthorized
  | ErrRateLimited
  | AuthorizationError string string "string list"
  | ErrOther string
  | ErrList string "error list"
  | Panic string
  | Wrap string error

fun errorsIs :: "error \<Rightarrow> error \<Rightarrow> bool" where
  "errorsIs (Wrap m e) target = (Wrap m e = target \<or> errorsIs e target)"
| "errorsIs e target = (e = target)"

section \<open>Password requirements (package access)\<close>

fun hasRepeat_loop :: "rune \<Rightarrow> nat \<Rightarrow> gostring \<Rightarrow> bool" where
  "hasRepeat_loop char count [] = False"
| "hasRepeat_loop char count (c # cs) =
     (if c \<noteq> char then hasRepeat_loop c 1 cs
      else if count + 1 \<ge> 4 then True
      else hasRepeat_loop char (count + 1) cs)"

definition hasRepeat :: "gostring \<Rightarrow> bool" where
  "hasRepeat password = hasRepeat_loop 0 0 password"

fun hasSequence_loop :: "rune \<Rightarrow> nat \<Rightarrow> gostring \<Rightarrow> bool" where
  "hasSequence_loop char count [] = False"
| "hasSequence_loop char count (c # cs) =
     (if c \<noteq> char + 1 then hasSequence_loop c 1 cs
      else if count + 1 \<ge> 4 then True
      else hasSequence_loop char (count + 1) cs)"

definition hasSequence :: "gostring \<Rightarrow> bool" where
  "hasSequence password = hasSequence_loop 0 0 password"

definition checkPasswordRequirements :: "gostring \<Rightarrow> gostring \<Rightarrow> error option" where
  "checkPasswordRequirements user password =
     (if byteLen password < 8 then
        Some (ValidateError [(''password'', [''must be at least 8 characters''])])
      else if Contains password user then
        Some (ValidateError [(''password'', [''cannot contain user name''])])
      else if Contains password (go ''infra'') then
        Some (ValidateError [(''password'',
          [''cannot contain common names such as the name of the service''])])
      else if hasSequence password then
        Some (ValidateError [(''password'', [''must not have common sequences of characters''])])
      else if hasRepeat password then
        Some (ValidateError [(''password'', [''must not have repeating characters''])])
      else None)"

text \<open>
  The requirement in the words of the specification: a run of \<open>n\<close> characters whose
  code points are consecutive, and a run of \<open>n\<close> identical characters.
\<close>

fun consecutive :: "gostring \<Rightarrow> bool" where
  "consecutive (a # b # cs) = (b = a + 1 \<and> consecutive (b # cs))"
| "consecutive cs = True"

fun identical :: "gostring \<Rightarrow> bool" where
  "identical (a # b # cs) = (b = a \<and> identical (b # cs))"
| "identical cs = True"

fun hasRun :: "(gostring \<Rightarrow> bool) \<Rightarrow> nat \<Rightarrow> gostring \<Rightarrow> bool" where
  "hasRun P n [] = (n = 0)"
| "hasRun P n (c # cs) = ((n \<le> length (c # cs) \<and> P (take n (c # cs))) \<or> hasRun P n cs)"

definition passwordAcceptable :: "gostring \<Rightarrow> gostring \<Rightarrow> bool" where
  "passwordAcceptable user password =
     (8 \<le> length password \<and> \<not> Contains password user \<and> \<not> Contains password (go ''infra'')
      \<and> \<not> hasRun identical 4 password \<and> \<not> hasRun consecutive 4 password)"

section \<open>The data store (package data)\<close>

text \<open>
  The functions of package \<open>data\<close> are called by the code below but their bodies are
  not part of the sources at hand. The store keeps the tables the callers touch:
  one credential per identity, access keys by their key id, identities by name and the
  (provider, identity) links.
\<close>

type_synonym ID = nat
type_synonym hash = string

record Identity =
  ID :: ID
  Name :: gostring
  VerificationToken :: string

record Credential =
  IdentityID :: ID
  PasswordHash :: hash
  OneTimePassword :: bool

text \<open>
  A point in time as a civil date and the nanoseconds since midnight. Arithmetic on
  times (\<open>time.Time.AddDate\<close>) belongs to Go's library and is a parameter where it is
  used.
\<close>

record Time =
  year :: int
  month :: nat
  day :: nat
  nanos :: nat

text \<open>An access key as the code holds it (\<open>Secret\<close> is the secret presented or
  configured) and as it is stored (\<open>SecretHash\<close> is the \<open>secret_hash\<close> of section 3).\<close>

record AccessKey =
  IssuedFor :: ID
  ExpiresAt :: Time
  KeyID :: string
  Secret :: string
  SecretHash :: string
  ProviderID :: ID
  Scopes :: "string list"

record db =
  identities :: "Identity list"
  credentials :: "Credential list"
  accessKeys :: "AccessKey list"
  providerUsers :: "(ID \<times> ID) set"
  infraProviderID :: ID
  resetTokens :: "(ID \<times> string \<times> nat) list"

text \<open>Modelled from the spec: the scope names of package \<open>models\<close> (section 3,
  \<open>scopes\<close> is a set over allow-create-access-key, password-reset and others).\<close>

definition ScopeAllowCreateAccessKey :: string where
  "ScopeAllowCreateAccessKey = ''allow-create-access-key''"

definition ScopePasswordReset :: string where
  "ScopePasswordReset = ''password-reset''"

text \<open>Modelled from the spec: the role names of package \<open>models\<close> (section 4.7
  authorizes infra-admin, infra-view and infra-connector).\<close>

definition InfraAdminRole :: string where
  "InfraAdminRole = ''infra-admin''"

definition InfraViewRole :: string where
  "InfraViewRole = ''infra-view''"

definition InfraConnectorRole :: string where
  "InfraConnectorRole = ''infra-connector''"

text \<open>Modelled from the spec: \<open>data.GetCredentialByUserID\<close>; a credential belongs to
  one identity and there is at most one per identity (section 3).\<close>

definition GetCredentialByUserID :: "db \<Rightarrow> ID \<Rightarrow> error + Credential" where
  "GetCredentialByUserID d uid =
     (case find (\<lambda>c. IdentityID c = uid) (credentials d) of
        None \<Rightarrow> Inl ErrNotFound
      | Some c \<Rightarrow> Inr c)"

text \<open>Modelled from the spec: \<open>data.CreateCredential\<close> inserts the row and refuses a
  second credential for the same identity.\<close>

definition data_CreateCredential :: "db \<Rightarrow> Credential \<Rightarrow> error + db" where
  "data_CreateCredential d c =
     (case find (\<lambda>c'. IdentityID c' = IdentityID c) (credentials d) of
        Some _ \<Rightarrow> Inl (ErrOther ''credential already exists'')
      | None \<Rightarrow> Inr (d\<lparr>credentials := credentials d @ [c]\<rparr>))"

text \<open>Modelled from the spec: \<open>data.UpdateCredential\<close> writes the identity's credential
  row (section 3: updated on password change).\<close>

definition data_UpdateCredential :: "db \<Rightarrow> Credential \<Rightarrow> error + db" where
  "data_UpdateCredential d c =
     (case find (\<lambda>c'. IdentityID c' = IdentityID c) (credentials d) of
        None \<Rightarrow> Inl ErrNotFound
      | Some _ \<Rightarrow>
          Inr (d\<lparr>credentials :=
                 map (\<lambda>c'. if IdentityID c' = IdentityID c then c else c') (credentials d)\<rparr>))"

text \<open>Modelled from the spec: \<open>data.GetAccessKeyByKeyID\<close>; the key id is unique
  (invariant 1).\<close>

definition GetAccessKeyByKeyID :: "db \<Rightarrow> string \<Rightarrow> error + AccessKey" where
  "GetAccessKeyByKeyID d kid =
     (case find (\<lambda>k. KeyID k = kid) (accessKeys d) of
        None \<Rightarrow> Inl ErrNotFound
      | Some k \<Rightarrow> Inr k)"




text \<open>Modelled from the spec: \<open>data.UpdateAccessKey\<close> (UpdateScopes in section 4.4)
  persists the changed fields of an existing key.\<close>

definition UpdateAccessKey :: "db \<Rightarrow> AccessKey \<Rightarrow> error + db" where
  "UpdateAccessKey d k =
     (case find (\<lambda>k'. KeyID k' = KeyID k) (accessKeys d) of
        None \<Rightarrow> Inl ErrNotFound
      | Some _ \<Rightarrow>
          Inr (d\<lparr>accessKeys := map (\<lambda>k'. if KeyID k' = KeyID k then k else k') (accessKeys d)\<rparr>))"

text \<open>Modelled from the spec: \<open>data.InfraProvider\<close> is the built-in provider that
  always exists, and \<open>data.CreateProviderUser\<close> ensures the link (provider, identity),
  which is unique (section 3).\<close>

definition InfraProvider :: "db \<Rightarrow> ID" where
  "InfraProvider d = infraProviderID d"

definition CreateProviderUser :: "db \<Rightarrow> ID \<Rightarrow> Identity \<Rightarrow> error + db" where
  "CreateProviderUser d provider ident =
     Inr (d\<lparr>providerUsers := insert (provider, ID ident) (providerUsers d)\<rparr>)"

section \<open>Credentials (package access)\<close>

text \<open>
  The request context: the request's transaction, the authenticated access key, user and
  organization (nil pointers are \<open>None\<close>), and the roles the authenticated identity
  holds on the resource \<open>infra\<close>. The
  libraries (bcrypt, the random generator) are parameters.
\<close>

record Organization =
  Domain :: string

record RequestContext =
  DBTxn :: db
  AuthAccessKey :: "AccessKey option"
  AuthUser :: "Identity option"
  AuthOrganization :: "Organization option"
  InfraRoles :: "string list"

record lib =
  CryptoRandom :: "nat \<Rightarrow> error + gostring"
  GenerateFromPassword :: "gostring \<Rightarrow> error + hash"
  CompareHashAndPassword :: "hash \<Rightarrow> gostring \<Rightarrow> error option"

text \<open>Modelled from the spec: \<open>IsAuthorized\<close> succeeds iff the authenticated identity
  holds one of the required roles on \<open>infra\<close> (section 4.6); \<open>isIdentitySelf\<close> compares
  the authenticated user with the identity acted upon.\<close>

definition IsAuthorized :: "RequestContext \<Rightarrow> string list \<Rightarrow> error option" where
  "IsAuthorized rCtx roles =
     (if list_ex (\<lambda>r. r \<in> set (InfraRoles rCtx)) roles then None else Some ErrUnauthorized)"

text \<open>Modelled from the spec: \<open>HandleAuthErr\<close> turns a failed authorization into the
  not-authorized error that names the resource, the action and the required roles
  (section 7) and passes any other error on.\<close>

definition HandleAuthErr :: "error \<Rightarrow> string \<Rightarrow> string \<Rightarrow> string list \<Rightarrow> error" where
  "HandleAuthErr e resource operation roles =
     (if errorsIs e ErrUnauthorized then AuthorizationError resource operation roles else e)"

definition isIdentitySelf :: "RequestContext \<Rightarrow> ID \<Rightarrow> bool" where
  "isIdentitySelf rCtx uid = (case AuthUser rCtx of None \<Rightarrow> False | Some u \<Rightarrow> ID u = uid)"

definition CreateCredential :: "lib \<Rightarrow> RequestContext \<Rightarrow> Identity \<Rightarrow> (error + gostring) \<times> RequestContext" where
  "CreateCredential l rCtx user =
     (case IsAuthorized rCtx [InfraAdminRole] of
        Some e \<Rightarrow> (Inl (HandleAuthErr e ''user'' ''create'' [InfraAdminRole]), rCtx)
      | None \<Rightarrow>
     (case CryptoRandom l 12 of
        Inl e \<Rightarrow> (Inl (Wrap ''generate'' e), rCtx)
      | Inr tmpPassword \<Rightarrow>
     (case GenerateFromPassword l tmpPassword of
        Inl e \<Rightarrow> (Inl (Wrap ''hash'' e), rCtx)
      | Inr h \<Rightarrow>
     (case data_CreateCredential (DBTxn rCtx)
             \<lparr>IdentityID = ID user, PasswordHash = h, OneTimePassword = True\<rparr> of
        Inl e \<Rightarrow> (Inl e, rCtx)
      | Inr d1 \<Rightarrow>
     (case CreateProviderUser d1 (InfraProvider d1) user of
        Inl e \<Rightarrow> (Inl (Wrap ''creating provider user'' e), rCtx\<lparr>DBTxn := d1\<rparr>)
      | Inr d2 \<Rightarrow> (Inr tmpPassword, rCtx\<lparr>DBTxn := d2\<rparr>))))))"

definition updateCredential :: "lib \<Rightarrow> RequestContext \<Rightarrow> Identity \<Rightarrow> gostring \<Rightarrow> bool \<Rightarrow> error option \<times> RequestContext" where
  "updateCredential l rCtx user newPassword isSelf =
     (case checkPasswordRequirements (Name user) newPassword of
        Some e \<Rightarrow> (Some e, rCtx)
      | None \<Rightarrow>
     (case GenerateFromPassword l newPassword of
        Inl e \<Rightarrow> (Some (Wrap ''hash'' e), rCtx)
      | Inr h \<Rightarrow>
     (case GetCredentialByUserID (DBTxn rCtx) (ID user) of
        Inl e \<Rightarrow>
          (if errorsIs e ErrNotFound \<and> \<not> isSelf then
             (case data_CreateCredential (DBTxn rCtx)
                     \<lparr>IdentityID = ID user, PasswordHash = h, OneTimePassword = True\<rparr> of
                Inl e' \<Rightarrow> (Some (Wrap ''creating credentials'' e'), rCtx)
              | Inr d1 \<Rightarrow> (None, rCtx\<lparr>DBTxn := d1\<rparr>))
           else (Some (Wrap ''existing credential'' e), rCtx))
      | Inr userCredential \<Rightarrow>
     (case data_UpdateCredential (DBTxn rCtx)
             (userCredential\<lparr>PasswordHash := h, OneTimePassword := \<not> isSelf\<rparr>) of
        Inl e \<Rightarrow> (Some (Wrap ''saving credentials'' e), rCtx)
      | Inr d1 \<Rightarrow>
          (if isSelf then
             (case AuthAccessKey rCtx of
                None \<Rightarrow> (None, rCtx\<lparr>DBTxn := d1\<rparr>)
              | Some accessKey \<Rightarrow>
                  (let accessKey' = accessKey\<lparr>Scopes := filter (\<lambda>s. s \<noteq> ScopePasswordReset) (Scopes accessKey)\<rparr>;
                       rCtx' = rCtx\<lparr>DBTxn := d1, AuthAccessKey := Some accessKey'\<rparr>
                   in (case UpdateAccessKey d1 accessKey' of
                         Inl e \<Rightarrow> (Some (Wrap ''updating access key'' e), rCtx')
                       | Inr d2 \<Rightarrow> (None, rCtx'\<lparr>DBTxn := d2\<rparr>))))
           else (None, rCtx\<lparr>DBTxn := d1\<rparr>))))))"

definition UpdateCredential :: "lib \<Rightarrow> RequestContext \<Rightarrow> Identity \<Rightarrow> gostring \<Rightarrow> gostring \<Rightarrow> error option \<times> RequestContext" where
  "UpdateCredential l rCtx user oldPassword newPassword =
     (let isSelf = isIdentitySelf rCtx (ID user) in
      case (if \<not> isSelf then IsAuthorized rCtx [InfraAdminRole] else None) of
        Some e \<Rightarrow> (Some (HandleAuthErr e ''user'' ''update'' [InfraAdminRole]), rCtx)
      | None \<Rightarrow>
     (case (if isSelf then
              (if oldPassword = [] then Some (ValidateError [(''oldPassword'', [''is required''])])
               else (case GetCredentialByUserID (DBTxn rCtx) (ID user) of
                       Inl e \<Rightarrow> Some (Wrap ''existing credential'' e)
                     | Inr userCredential \<Rightarrow>
                         (case CompareHashAndPassword l (PasswordHash userCredential) oldPassword of
                            Some _ \<Rightarrow> Some (ValidateError [(''oldPassword'', [''invalid oldPassword''])])
                          | None \<Rightarrow> None)))
            else None) of
        Some e \<Rightarrow> (Some e, rCtx)
      | None \<Rightarrow>
     (case updateCredential l rCtx user newPassword isSelf of
        (Some e, rCtx1) \<Rightarrow> (Some e, rCtx1)
      | (None, rCtx1) \<Rightarrow>
          (if \<not> isSelf then
             (case CreateProviderUser (DBTxn rCtx1) (InfraProvider (DBTxn rCtx1)) user of
                Inl _ \<Rightarrow> (None, rCtx1)
              | Inr d2 \<Rightarrow> (None, rCtx1\<lparr>DBTxn := d2\<rparr>))
           else (None, rCtx1)))))"

section \<open>Example values\<close>

text \<open>The identity, key and store of \<open>TestUpdateCredentials\<close>, used to run the
  definitions on concrete inputs.\<close>

definition bruce :: Identity where
  "bruce = \<lparr>ID = 7, Name = go ''bruce@example.com'', VerificationToken = ''''\<rparr>"

definition testLib :: lib where
  "testLib = \<lparr>CryptoRandom = (\<lambda>n. Inr (go ''tmpPassw0rd!'')),
              GenerateFromPassword = (\<lambda>p. Inr ''bcrypt''),
              CompareHashAndPassword =
                (\<lambda>h p. if h = ''bcrypt'' then None else Some (ErrOther ''mismatch''))\<rparr>"

definition testKey :: AccessKey where
  "testKey = \<lparr>IssuedFor = 7, ExpiresAt = \<lparr>year = 2030, month = 1, day = 1, nanos = 0\<rparr>,
     KeyID = ''0000000001'', Secret = ''adminadminadminadmin1234'', SecretHash = [],
     ProviderID = 1, Scopes = [ScopeAllowCreateAccessKey, ScopePasswordReset]\<rparr>"

definition testDB :: db where
  "testDB = \<lparr>identities = [bruce],
     credentials = [\<lparr>IdentityID = 7, PasswordHash = ''bcrypt'', OneTimePassword = True\<rparr>],
     accessKeys = [testKey], providerUsers = {(1, 7)}, infraProviderID = 1, resetTokens = []\<rparr>"

definition selfCtx :: RequestContext where
  "selfCtx = \<lparr>DBTxn = testDB, AuthAccessKey = Some testKey, AuthUser = Some bruce,
     AuthOrganization = Some \<lparr>Domain = ''example.com''\<rparr>, InfraRoles = []\<rparr>"

definition adminCtx :: RequestContext where
  "adminCtx = \<lparr>DBTxn = testDB\<lparr>credentials := []\<rparr>, AuthAccessKey = None, AuthUser = None,
     AuthOrganization = Some \<lparr>Domain = ''example.com''\<rparr>, InfraRoles = [InfraAdminRole]\<rparr>"

section \<open>Bootstrap of a configured access key (package server)\<close>







section \<open>Password reset request (package server)\<close>

text \<open>Modelled from the spec: \<open>data.GetIdentity\<close> by name; the name is unique per
  organization (section 3).\<close>

definition GetIdentity :: "db \<Rightarrow> gostring \<Rightarrow> error + Identity" where
  "GetIdentity d name =
     (case find (\<lambda>i. Name i = name) (identities d) of
        None \<Rightarrow> Inl ErrNotFound
      | Some i \<Rightarrow> Inr i)"

text \<open>Modelled from the spec: \<open>data.CreatePasswordResetToken\<close> stores a token for the
  identity with its time to live in minutes and returns it (the verify endpoint of
  section 6 takes it back); the token text comes from the generator, a parameter.\<close>

definition CreatePasswordResetToken :: "string \<Rightarrow> db \<Rightarrow> ID \<Rightarrow> nat \<Rightarrow> error + (string \<times> db)" where
  "CreatePasswordResetToken tok d uid ttl =
     Inr (tok, d\<lparr>resetTokens := resetTokens d @ [(uid, tok, ttl)]\<rparr>)"

text \<open>
  The collaborators of the handler: the rate limiter of the redis package, the token
  generator, \<open>wrapLinkWithVerification\<close> and the mailer. A mail that is sent is appended
  to the outbox.
\<close>

record Mail =
  Recipient :: gostring
  Link :: string

record API =
  RateOK :: "gostring \<Rightarrow> nat \<Rightarrow> error option"
  NewToken :: string
  wrapLinkWithVerification :: "string \<Rightarrow> string \<Rightarrow> string \<Rightarrow> string"
  SendError :: "Mail \<Rightarrow> error option"

definition SendPasswordResetEmail :: "API \<Rightarrow> Mail list \<Rightarrow> Mail \<Rightarrow> error option \<times> Mail list" where
  "SendPasswordResetEmail a outbox m =
     (case SendError a m of
        Some e \<Rightarrow> (Some e, outbox)
      | None \<Rightarrow> (None, outbox @ [m]))"

definition RequestPasswordReset :: "API \<Rightarrow> RequestContext \<Rightarrow> Mail list \<Rightarrow> gostring \<Rightarrow> error option \<times> db \<times> Mail list" where
  "RequestPasswordReset a rCtx outbox email =
     (case RateOK a email 10 of
        Some e \<Rightarrow> (Some e, DBTxn rCtx, outbox)
      | None \<Rightarrow>
     (case GetIdentity (DBTxn rCtx) email of
        Inl e \<Rightarrow>
          (if errorsIs e ErrNotFound then (None, DBTxn rCtx, outbox)
           else (Some e, DBTxn rCtx, outbox))
      | Inr user \<Rightarrow>
     (case GetCredentialByUserID (DBTxn rCtx) (ID user) of
        Inl e \<Rightarrow> (Some e, DBTxn rCtx, outbox)
      | Inr _ \<Rightarrow>
     (case CreatePasswordResetToken (NewToken a) (DBTxn rCtx) (ID user) 15 of
        Inl e \<Rightarrow> (Some e, DBTxn rCtx, outbox)
      | Inr (token, d1) \<Rightarrow>
     (case AuthOrganization rCtx of
        None \<Rightarrow> (Some (Panic ''nil pointer dereference''), d1, outbox)
      | Some org \<Rightarrow>
          (case SendPasswordResetEmail a outbox
                  \<lparr>Recipient = email,
                   Link = wrapLinkWithVerification a
                     (''https://'' @ Domain org @ ''/password-reset?token='' @ token)
                     (Domain org) (VerificationToken user)\<rparr> of
             (err, outbox') \<Rightarrow> (err, d1, outbox')))))))"

definition testAPI :: API where
  "testAPI = \<lparr>RateOK = (\<lambda>key limit. None), NewToken = ''resettoken'',
               wrapLinkWithVerification = (\<lambda>link domain vt. link),
               SendError = (\<lambda>m. None)\<rparr>"

section \<open>Notification listener (package data)\<close>

text \<open>
  The listener works on a dedicated database connection. What it does to the connection,
  the pool and the log is recorded as a trace of events, in order; what the outside world
  answers (the database, the pool, the notification) is read from \<open>World\<close>. A context
  is the request's context, the background context, or one of these with a timeout in
  nanoseconds.
\<close>

datatype Context = RequestCtx | Background | WithTimeout Context nat

definition Second :: nat where
  "Second = 1000000000"

definition Minute :: nat where
  "Minute = 60 * Second"

datatype txn = RequestTxn | ReadTx nat

datatype event =
    AcquireConn
  | Exec Context string "string list"
  | ReleaseConn
  | Wait Context
  | Begin Context nat
  | Rollback txn
  | LogDebug string
  | LogWarn string
  | LogError string

record data_DestinationAccess =
  data_UserID :: ID
  data_UserSSHLoginName :: string
  data_Privilege :: string
  data_Resource :: string

datatype SubjectKind = SubjectKindIdentity | SubjectKindGroup

record Subject =
  SubjectKindOf :: SubjectKind
  SubjectID :: ID

record Grant =
  GrantSubject :: Subject
  GrantPrivilege :: string
  GrantResource :: string

record Destination =
  DestinationID :: ID
  DestinationName :: string

record World =
  uidString :: "ID \<Rightarrow> string"
  OrganizationID :: ID
  data_ListDestinationAccess :: "txn \<Rightarrow> string \<Rightarrow> error + data_DestinationAccess list"
  DestinationAccessMaxUpdateIndex :: "txn \<Rightarrow> string \<Rightarrow> error + int"
  GetDestination :: "txn \<Rightarrow> string \<Rightarrow> error + Destination"
  ListGrants :: "txn \<Rightarrow> string \<Rightarrow> error + Grant list"
  RollbackErr :: "txn \<Rightarrow> error option"
  BeginErr :: "nat \<Rightarrow> error option"
  AcquireConnErr :: "error option"
  ListenErr :: "string \<Rightarrow> error option"
  UnlistenErr :: "error option"
  ReleaseConnErr :: "error option"
  WaitErr :: "error option"

definition WaitForNotification :: "World \<Rightarrow> Context \<Rightarrow> error option \<times> event list" where
  "WaitForNotification w ctx = (WaitErr w, [Wait ctx])"

definition Release :: "World \<Rightarrow> Context \<Rightarrow> error option \<times> event list" where
  "Release w ctx =
     (let errs = (case UnlistenErr w of Some e \<Rightarrow> [e] | None \<Rightarrow> [])
               @ (case ReleaseConnErr w of Some e \<Rightarrow> [e] | None \<Rightarrow> [])
      in (if length errs > 0
          then Some (ErrList ''failed to unlisten to postgres channels'' errs)
          else None,
          [LogDebug ''unlisten *'', Exec ctx ''UNLISTEN *'' [], ReleaseConn]))"

datatype ListenChannelDescriptor =
    ListenChannelGrantsByDestination ID ID
  | ListenChannelDestinationCredentialsByDestinationID ID ID
  | ListenChannelDestinationCredentialsByID ID ID
  | ListenChannelGroupMembership ID ID

fun Channel :: "World \<Rightarrow> ListenChannelDescriptor \<Rightarrow> string" where
  "Channel w (ListenChannelGrantsByDestination org dest) =
     ''grantsByDest.'' @ uidString w org @ ''.'' @ uidString w dest"
| "Channel w (ListenChannelDestinationCredentialsByDestinationID org dest) =
     ''dcredReq.'' @ uidString w org @ ''.'' @ uidString w dest"
| "Channel w (ListenChannelDestinationCredentialsByID org cred) =
     ''dcredResp.'' @ uidString w org @ ''.'' @ uidString w cred"
| "Channel w (ListenChannelGroupMembership org grp) =
     ''group_membership.'' @ uidString w org @ ''.'' @ uidString w grp"

fun listen_loop :: "World \<Rightarrow> Context \<Rightarrow> ListenChannelDescriptor list \<Rightarrow> error option \<times> event list" where
  "listen_loop w ctx [] = (None, [])"
| "listen_loop w ctx (descriptor # rest) =
     (case ListenErr w (Channel w descriptor) of
        Some e \<Rightarrow>
          (Some e,
           [Exec ctx ''SELECT listen_on_chan($1)'' [Channel w descriptor], ReleaseConn]
           @ (case ReleaseConnErr w of Some _ \<Rightarrow> [LogWarn ''release pgx conn''] | None \<Rightarrow> []))
      | None \<Rightarrow>
          (case listen_loop w ctx rest of
             (r, evs) \<Rightarrow> (r, Exec ctx ''SELECT listen_on_chan($1)'' [Channel w descriptor] # evs)))"

definition ListenForNotify :: "World \<Rightarrow> Context \<Rightarrow> ListenChannelDescriptor list \<Rightarrow> error option \<times> event list" where
  "ListenForNotify w ctx descriptors =
     (case AcquireConnErr w of
        Some e \<Rightarrow> (Some e, [AcquireConn])
      | None \<Rightarrow> (case listen_loop w ctx descriptors of (r, evs) \<Rightarrow> (r, AcquireConn # evs)))"

section \<open>Destination access long-poll (package server)\<close>

record ListDestinationAccessRequest =
  ReqName :: string
  LastUpdateIndex :: int

record DestinationAccess =
  UserID :: ID
  UserSSHLoginName :: string
  Privilege :: string
  Resource :: string

record ListDestinationAccessResponse =
  Items :: "DestinationAccess list"
  Index :: int

definition destinationAccessToAPI :: "data_DestinationAccess list \<Rightarrow> DestinationAccess list" where
  "destinationAccessToAPI a =
     map (\<lambda>item. \<lparr>UserID = data_UserID item,
                   UserSSHLoginName = data_UserSSHLoginName item,
                   Privilege = data_Privilege item,
                   Resource = data_Resource item\<rparr>) a"

text \<open>The \<open>n\<close>-th read-only transaction opened by the request; its rollback is deferred
  and a failure of the rollback is only logged.\<close>

definition listDestinationAccessWithMaxUpdateIndex ::
    "World \<Rightarrow> nat \<Rightarrow> string \<Rightarrow> (error + ListDestinationAccessResponse) \<times> event list" where
  "listDestinationAccessWithMaxUpdateIndex w n name =
     (case BeginErr w n of
        Some e \<Rightarrow> (Inl e, [Begin RequestCtx n])
      | None \<Rightarrow>
          (let deferred = Rollback (ReadTx n)
                 # (case RollbackErr w (ReadTx n) of
                      Some _ \<Rightarrow> [LogError ''failed to rollback transaction'']
                    | None \<Rightarrow> [])
           in (case data_ListDestinationAccess w (ReadTx n) name of
                 Inl e \<Rightarrow> (Inl e, Begin RequestCtx n # deferred)
               | Inr result \<Rightarrow>
                   (case DestinationAccessMaxUpdateIndex w (ReadTx n) name of
                      Inl e \<Rightarrow> (Inl e, Begin RequestCtx n # deferred)
                    | Inr maxUpdateIndex \<Rightarrow>
                        (Inr \<lparr>Items = destinationAccessToAPI result, Index = maxUpdateIndex\<rparr>,
                         Begin RequestCtx n # deferred)))))"

text \<open>What a Go function returning \<open>(*Response, error)\<close> hands back: either may be nil.\<close>

type_synonym ret = "ListDestinationAccessResponse option \<times> error option"

definition returned :: "error + ListDestinationAccessResponse \<Rightarrow> ret" where
  "returned r = (case r of Inl e \<Rightarrow> (None, Some e) | Inr res \<Rightarrow> (Some res, None))"

text \<open>The part of the handler that runs with the listener registered, up to its
  \<open>return\<close>; the deferred release is added by \<open>ListDestinationAccess\<close>.\<close>

definition withListener :: "World \<Rightarrow> ListDestinationAccessRequest \<Rightarrow> ret \<times> event list" where
  "withListener w r =
     (case listDestinationAccessWithMaxUpdateIndex w 0 (ReqName r) of
        (Inl e, evs) \<Rightarrow> ((None, Some e), evs)
      | (Inr result, evs) \<Rightarrow>
          (if Index result > LastUpdateIndex r then ((Some result, None), evs)
           else (case WaitForNotification w RequestCtx of
                   (Some e, evs1) \<Rightarrow>
                     (if errorsIs e ErrDeadlineExceeded
                      then ((Some result, Some ErrNotModified), evs @ evs1)
                      else ((Some result, Some (Wrap ''waiting for notify'' e)), evs @ evs1))
                 | (None, evs1) \<Rightarrow>
                     (case listDestinationAccessWithMaxUpdateIndex w 1 (ReqName r) of
                        (result2, evs2) \<Rightarrow> (returned result2, evs @ evs1 @ evs2)))))"

definition channelsFor :: "World \<Rightarrow> Destination \<Rightarrow> Grant list \<Rightarrow> ListenChannelDescriptor list" where
  "channelsFor w dest grants =
     ListenChannelGrantsByDestination (OrganizationID w) (DestinationID dest)
     # map (\<lambda>grant. ListenChannelGroupMembership (OrganizationID w) (SubjectID (GrantSubject grant)))
         (filter (\<lambda>grant. SubjectKindOf (GrantSubject grant) = SubjectKindGroup) grants)"

definition ListDestinationAccess ::
    "World \<Rightarrow> RequestContext \<Rightarrow> ListDestinationAccessRequest \<Rightarrow> ret \<times> event list" where
  "ListDestinationAccess w rCtx r =
     (let roles = [InfraAdminRole, InfraViewRole, InfraConnectorRole] in
      case IsAuthorized rCtx roles of
        Some e \<Rightarrow> ((None, Some (HandleAuthErr e ''grants'' ''list'' roles)), [])
      | None \<Rightarrow>
     (if LastUpdateIndex r = 0 then
        (case data_ListDestinationAccess w RequestTxn (ReqName r) of
           Inl e \<Rightarrow> ((None, Some e), [])
         | Inr result \<Rightarrow> ((Some \<lparr>Items = destinationAccessToAPI result, Index = 0\<rparr>, None), []))
      else
     (case GetDestination w RequestTxn (ReqName r) of
        Inl e \<Rightarrow> ((None, Some e), [])
      | Inr dest \<Rightarrow>
     (case ListGrants w RequestTxn (ReqName r) of
        Inl e \<Rightarrow> ((None, Some e), [])
      | Inr grants \<Rightarrow>
     (case RollbackErr w RequestTxn of
        Some e \<Rightarrow> ((None, Some e), [Rollback RequestTxn])
      | None \<Rightarrow>
     (case ListenForNotify w RequestCtx (channelsFor w dest grants) of
        (Some e, evs) \<Rightarrow> ((None, Some (Wrap ''listen for notify'' e)), Rollback RequestTxn # evs)
      | (None, evs) \<Rightarrow>
          (case withListener w r of
             (result, evs1) \<Rightarrow>
               (case Release w (WithTimeout Background Minute) of
                  (rerr, evs2) \<Rightarrow>
                    (result,
                     Rollback RequestTxn # evs @ evs1 @ evs2
                     @ (case rerr of
                          Some _ \<Rightarrow> [LogError ''failed to release listener conn'']
                        | None \<Rightarrow> []))))))))))"

text \<open>Scenario 4 of the specification: the grant (alice, view, cluster), with the
  server's update index at 5.\<close>

definition alice :: data_DestinationAccess where
  "alice = \<lparr>data_UserID = 11, data_UserSSHLoginName = ''alice'', data_Privilege = ''view'',
     data_Resource = ''cluster''\<rparr>"

definition bob :: data_DestinationAccess where
  "bob = \<lparr>data_UserID = 12, data_UserSSHLoginName = ''bob'', data_Privilege = ''admin'',
     data_Resource = ''cluster''\<rparr>"

definition testWorld :: World where
  "testWorld = \<lparr>uidString = (\<lambda>i. replicate i CHR ''i''),
     OrganizationID = 1,
     data_ListDestinationAccess = (\<lambda>t name. if t = ReadTx 1 then Inr [alice, bob] else Inr [alice]),
     DestinationAccessMaxUpdateIndex = (\<lambda>t name. if t = ReadTx 1 then Inr 6 else Inr 5),
     GetDestination = (\<lambda>t name. Inr \<lparr>DestinationID = 2, DestinationName = name\<rparr>),
     ListGrants = (\<lambda>t name. Inr [\<lparr>GrantSubject = \<lparr>SubjectKindOf = SubjectKindGroup, SubjectID = 3\<rparr>,
                                   GrantPrivilege = ''view'', GrantResource = ''cluster''\<rparr>]),
     RollbackErr = (\<lambda>t. None),
     BeginErr = (\<lambda>n. None),
     AcquireConnErr = None,
     ListenErr = (\<lambda>c. None),
     UnlistenErr = None,
     ReleaseConnErr = None,
     WaitErr = None\<rparr>"

definition connectorCtx :: RequestContext where
  "connectorCtx = \<lparr>DBTxn = testDB, AuthAccessKey = None, AuthUser = None,
     AuthOrganization = Some \<lparr>Domain = ''example.com''\<rparr>, InfraRoles = [InfraConnectorRole]\<rparr>"

text \<open>Modelled from the spec: the HTTP status with which an error returned by a handler
  is answered (section 7, error kinds): not-found 404, not-authenticated 401,
  not-authorized 403, bad-request 400 for validation failures, not-modified 304, and
  500 for every other error; an error wrapped with \<open>%w\<close> has the status of the error it
  wraps.\<close>

fun statusCode :: "error \<Rightarrow> nat" where
  "statusCode (Wrap m e) = statusCode e"
| "statusCode ErrNotFound = 404"
| "statusCode ErrUnauthorized = 401"
| "statusCode (AuthorizationError _ _ _) = 403"
| "statusCode (ValidateError _) = 400"
| "statusCode ErrNotModified = 304"
| "statusCode _ = 500"

section \<open>Secret providers (package server)\<close>

text \<open>
  The typed configuration records of the secret providers. \<open>SecretProvider.Config\<close> is
  an \<open>interface{}\<close>; the type assertions of \<open>importSecrets\<close> become a case distinction
  on \<open>Config\<close>, with \<open>OtherConfig\<close> for a nil or foreign value.
\<close>

datatype GenericConfig =
  GenericConfig (Base64: bool) (Base64URLEncoded: bool) (Base64Raw: bool)

datatype FileConfig =
  FileConfig (FileGeneric: GenericConfig) (Path: string)

datatype KubernetesConfig =
  KubernetesConfig (KubernetesNamespace: string)

datatype VaultConfig =
  VaultConfig (TransitMount: string) (SecretMount: string) (Token: string)
    (VaultNamespace: string) (Address: string)

datatype AWSConfig =
  AWSConfig (Endpoint: string) (Region: string) (AccessKeyID: string) (SecretAccessKey: string)

datatype AWSSSMConfig =
  AWSSSMConfig (SSMAWSConfig: AWSConfig) (SSMKeyID: string)

datatype AWSSecretsManagerConfig =
  AWSSecretsManagerConfig (SMAWSConfig: AWSConfig)

datatype Config =
    VaultCfg VaultConfig
  | AWSSSMCfg AWSSSMConfig
  | AWSSecretsManagerCfg AWSSecretsManagerConfig
  | KubernetesCfg KubernetesConfig
  | GenericCfg GenericConfig
  | FileCfg FileConfig
  | OtherConfig

record SecretProvider =
  SecretKind :: string
  SecretName :: string
  SecretConfig :: Config

text \<open>
  A secret storage of the external secrets library, named by the constructor that built
  it and the configuration it was built from. The constructors that can fail, the
  default configurations, \<open>secrets.GetSecret\<close> and \<open>os.LookupEnv\<close> are parameters.
\<close>

datatype SecretStorage =
    EnvSecretProvider GenericConfig
  | FileSecretProvider FileConfig
  | PlainSecretProvider GenericConfig
  | KubernetesSecretProvider KubernetesConfig
  | VaultSecretProvider VaultConfig
  | AWSSSMSecretProvider AWSSSMConfig
  | AWSSecretsManager AWSSecretsManagerConfig

type_synonym storage = "string \<rightharpoonup> SecretStorage"

record secretsLib =
  NewKubernetesConfig :: KubernetesConfig
  NewKubernetesSecretProviderFromConfig :: "KubernetesConfig \<Rightarrow> error + SecretStorage"
  NewVaultConfig :: VaultConfig
  NewVaultSecretProviderFromConfig :: "VaultConfig \<Rightarrow> error + SecretStorage"
  NewAWSSSMSecretProviderFromConfig :: "AWSSSMConfig \<Rightarrow> error + SecretStorage"
  NewAWSSecretsManagerFromConfig :: "AWSSecretsManagerConfig \<Rightarrow> error + SecretStorage"
  secrets_GetSecret :: "string \<Rightarrow> storage \<Rightarrow> error + string"
  LookupEnv :: "string \<Rightarrow> string option"

definition baseSecretStorageKinds :: "string list" where
  "baseSecretStorageKinds = [''env'', ''file'', ''plaintext'', ''kubernetes'']"

fun isABaseSecretStorageKind_loop :: "string list \<Rightarrow> string \<Rightarrow> bool" where
  "isABaseSecretStorageKind_loop [] s = False"
| "isABaseSecretStorageKind_loop (item # items) s =
     (if item = s then True else isABaseSecretStorageKind_loop items s)"

definition isABaseSecretStorageKind :: "string \<Rightarrow> bool" where
  "isABaseSecretStorageKind s = isABaseSecretStorageKind_loop baseSecretStorageKinds s"

definition secretConfigName :: "SecretProvider \<Rightarrow> string" where
  "secretConfigName secret =
     (if length (SecretName secret) = 0 then SecretKind secret else SecretName secret)"

definition ErrDuplicateSecret :: "string \<Rightarrow> error" where
  "ErrDuplicateSecret name = ErrOther (''duplicate secret configuration for '' @ name)"

definition ErrUnknownSecretKind :: "string \<Rightarrow> error" where
  "ErrUnknownSecretKind kind = ErrOther (''unknown secret provider type '' @ kind)"

definition ErrExpectedConfig :: "string \<Rightarrow> error" where
  "ErrExpectedConfig ty = ErrOther (''expected secret config to be '' @ ty)"

definition loadVault :: "secretsLib \<Rightarrow> storage \<Rightarrow> string \<Rightarrow> Config \<Rightarrow> error option \<times> storage" where
  "loadVault l st name c =
     (case c of
        VaultCfg cfg \<Rightarrow>
          (case secrets_GetSecret l (Token cfg) st of
             Inl e \<Rightarrow> (Some e, st)
           | Inr token \<Rightarrow>
               (let d = NewVaultConfig l;
                    vcfg = VaultConfig
                      (if length (TransitMount cfg) > 0 then TransitMount cfg else TransitMount d)
                      (if length (SecretMount cfg) > 0 then SecretMount cfg else SecretMount d)
                      token
                      (VaultNamespace cfg)
                      (if length (Address cfg) > 0 then Address cfg else Address d)
                in (case NewVaultSecretProviderFromConfig l vcfg of
                      Inl e \<Rightarrow> (Some (Wrap ''creating vault provider'' e), st)
                    | Inr vault \<Rightarrow> (None, st(name \<mapsto> vault)))))
      | _ \<Rightarrow> (Some (ErrExpectedConfig ''VaultConfig''), st))"

definition resolveAWS :: "secretsLib \<Rightarrow> storage \<Rightarrow> AWSConfig \<Rightarrow> error + AWSConfig" where
  "resolveAWS l st cfg =
     (case secrets_GetSecret l (AccessKeyID cfg) st of
        Inl e \<Rightarrow> Inl e
      | Inr accessKeyID \<Rightarrow>
          (case secrets_GetSecret l (SecretAccessKey cfg) st of
             Inl e \<Rightarrow> Inl e
           | Inr secretAccessKey \<Rightarrow>
               Inr (AWSConfig (Endpoint cfg) (Region cfg) accessKeyID secretAccessKey)))"

definition loadAWSSSM :: "secretsLib \<Rightarrow> storage \<Rightarrow> string \<Rightarrow> Config \<Rightarrow> error option \<times> storage" where
  "loadAWSSSM l st name c =
     (case c of
        AWSSSMCfg cfg \<Rightarrow>
          (case resolveAWS l st (SSMAWSConfig cfg) of
             Inl e \<Rightarrow> (Some e, st)
           | Inr aws \<Rightarrow>
               (case NewAWSSSMSecretProviderFromConfig l (AWSSSMConfig aws (SSMKeyID cfg)) of
                  Inl e \<Rightarrow> (Some (Wrap ''creating aws ssm'' e), st)
                | Inr ssm \<Rightarrow> (None, st(name \<mapsto> ssm))))
      | _ \<Rightarrow> (Some (ErrExpectedConfig ''AWSSSMConfig''), st))"

definition loadAWSSecretsManager :: "secretsLib \<Rightarrow> storage \<Rightarrow> string \<Rightarrow> Config \<Rightarrow> error option \<times> storage" where
  "loadAWSSecretsManager l st name c =
     (case c of
        AWSSecretsManagerCfg cfg \<Rightarrow>
          (case resolveAWS l st (SMAWSConfig cfg) of
             Inl e \<Rightarrow> (Some e, st)
           | Inr aws \<Rightarrow>
               (case NewAWSSecretsManagerFromConfig l (AWSSecretsManagerConfig aws) of
                  Inl e \<Rightarrow> (Some (Wrap ''creating aws sm'' e), st)
                | Inr sm \<Rightarrow> (None, st(name \<mapsto> sm))))
      | _ \<Rightarrow> (Some (ErrExpectedConfig ''AWSSecretsManagerConfig''), st))"

definition loadKubernetes :: "secretsLib \<Rightarrow> storage \<Rightarrow> string \<Rightarrow> Config \<Rightarrow> error option \<times> storage" where
  "loadKubernetes l st name c =
     (case c of
        KubernetesCfg cfg \<Rightarrow>
          (let kcfg = (if length (KubernetesNamespace cfg) > 0
                       then KubernetesConfig (KubernetesNamespace cfg)
                       else NewKubernetesConfig l)
           in (case NewKubernetesSecretProviderFromConfig l kcfg of
                 Inl e \<Rightarrow> (Some (Wrap ''creating k8s secret provider'' e), st)
               | Inr k8s \<Rightarrow> (None, st(name \<mapsto> k8s))))
      | _ \<Rightarrow> (Some (ErrExpectedConfig ''KubernetesConfig''), st))"

definition loadGeneric :: "(GenericConfig \<Rightarrow> SecretStorage) \<Rightarrow> storage \<Rightarrow> string \<Rightarrow> Config \<Rightarrow> error option \<times> storage" where
  "loadGeneric new st name c =
     (case c of
        GenericCfg cfg \<Rightarrow>
          (None, st(name \<mapsto> new (GenericConfig (Base64 cfg) (Base64URLEncoded cfg) (Base64Raw cfg))))
      | _ \<Rightarrow> (Some (ErrExpectedConfig ''GenericConfig''), st))"

definition loadFile :: "storage \<Rightarrow> string \<Rightarrow> Config \<Rightarrow> error option \<times> storage" where
  "loadFile st name c =
     (case c of
        FileCfg cfg \<Rightarrow>
          (None, st(name \<mapsto> FileSecretProvider
             (FileConfig (GenericConfig (Base64 (FileGeneric cfg)) (Base64URLEncoded (FileGeneric cfg))
                            (Base64Raw (FileGeneric cfg)))
                (Path cfg))))
      | _ \<Rightarrow> (Some (ErrExpectedConfig ''FileConfig''), st))"

definition loadSecretConfig :: "secretsLib \<Rightarrow> storage \<Rightarrow> SecretProvider \<Rightarrow> error option \<times> storage" where
  "loadSecretConfig l st secret =
     (let name = secretConfigName secret; kind = SecretKind secret; c = SecretConfig secret in
      if st name \<noteq> None then (Some (ErrDuplicateSecret name), st)
      else if kind = ''vault'' then loadVault l st name c
      else if kind = ''awsssm'' then loadAWSSSM l st name c
      else if kind = ''awssecretsmanager'' then loadAWSSecretsManager l st name c
      else if kind = ''kubernetes'' then loadKubernetes l st name c
      else if kind = ''env'' then loadGeneric EnvSecretProvider st name c
      else if kind = ''file'' then loadFile st name c
      else if kind = ''plaintext'' \<or> kind = '''' then loadGeneric PlainSecretProvider st name c
      else (Some (ErrUnknownSecretKind kind), st))"

definition loadDefaultSecretConfig :: "secretsLib \<Rightarrow> storage \<Rightarrow> error option \<times> storage" where
  "loadDefaultSecretConfig l st =
     (let st1 = (if st ''env'' = None
                 then st(''env'' \<mapsto> EnvSecretProvider (GenericConfig False False False))
                 else st);
          st2 = (if st1 ''file'' = None
                 then st1(''file'' \<mapsto> FileSecretProvider
                            (FileConfig (GenericConfig False False False) ''''))
                 else st1);
          st3 = (if st2 ''plaintext'' = None
                 then st2(''plaintext'' \<mapsto> PlainSecretProvider (GenericConfig False False False))
                 else st2)
      in if st3 ''kubernetes'' = None then
           (case LookupEnv l ''KUBERNETES_SERVICE_HOST'' of
              Some _ \<Rightarrow>
                (case NewKubernetesSecretProviderFromConfig l (NewKubernetesConfig l) of
                   Inl e \<Rightarrow> (Some (Wrap ''creating k8s secret provider'' e), st3)
                 | Inr k8s \<Rightarrow> (None, st3(''kubernetes'' \<mapsto> k8s)))
            | None \<Rightarrow> (None, st3))
         else (None, st3))"

text \<open>The two loops of \<open>importSecrets\<close>: the first skips every entry that is not of a
  base kind, the second every entry that is.\<close>

fun loadBaseKinds :: "secretsLib \<Rightarrow> SecretProvider list \<Rightarrow> storage \<Rightarrow> error option \<times> storage" where
  "loadBaseKinds l [] st = (None, st)"
| "loadBaseKinds l (secret # cfg) st =
     (if \<not> isABaseSecretStorageKind (SecretKind secret) then loadBaseKinds l cfg st
      else (case loadSecretConfig l st secret of
              (Some e, st') \<Rightarrow> (Some e, st')
            | (None, st') \<Rightarrow> loadBaseKinds l cfg st'))"

fun loadOtherKinds :: "secretsLib \<Rightarrow> SecretProvider list \<Rightarrow> storage \<Rightarrow> error option \<times> storage" where
  "loadOtherKinds l [] st = (None, st)"
| "loadOtherKinds l (secret # cfg) st =
     (if isABaseSecretStorageKind (SecretKind secret) then loadOtherKinds l cfg st
      else (case loadSecretConfig l st secret of
              (Some e, st') \<Rightarrow> (Some e, st')
            | (None, st') \<Rightarrow> loadOtherKinds l cfg st'))"

definition importSecrets :: "secretsLib \<Rightarrow> SecretProvider list \<Rightarrow> storage \<Rightarrow> error option \<times> storage" where
  "importSecrets l cfg st =
     (case loadBaseKinds l cfg st of
        (Some e, st1) \<Rightarrow> (Some e, st1)
      | (None, st1) \<Rightarrow>
          (case loadDefaultSecretConfig l st1 of
             (Some e, st2) \<Rightarrow> (Some e, st2)
           | (None, st2) \<Rightarrow> loadOtherKinds l cfg st2))"

text \<open>Loading a list of entries one after the other, each on the storage left by the one
  before, stopping at the first error: the reading of a pass in the specification.\<close>

fun loadInOrder :: "secretsLib \<Rightarrow> SecretProvider list \<Rightarrow> storage \<Rightarrow> error option \<times> storage" where
  "loadInOrder l [] st = (None, st)"
| "loadInOrder l (secret # cfg) st =
     (case loadSecretConfig l st secret of
        (Some e, st') \<Rightarrow> (Some e, st')
      | (None, st') \<Rightarrow> loadInOrder l cfg st')"

definition knownSecretKinds :: "string list" where
  "knownSecretKinds = [''vault'', ''awsssm'', ''awssecretsmanager'', ''kubernetes'', ''env'',
     ''file'', ''plaintext'', '''']"

definition testSecretsLib :: secretsLib where
  "testSecretsLib = \<lparr>NewKubernetesConfig = KubernetesConfig ''default'',
     NewKubernetesSecretProviderFromConfig = (\<lambda>c. Inr (KubernetesSecretProvider c)),
     NewVaultConfig = VaultConfig ''/transit'' ''/secret'' '''' '''' ''https://vault'',
     NewVaultSecretProviderFromConfig = (\<lambda>c. Inr (VaultSecretProvider c)),
     NewAWSSSMSecretProviderFromConfig = (\<lambda>c. Inr (AWSSSMSecretProvider c)),
     NewAWSSecretsManagerFromConfig = (\<lambda>c. Inr (AWSSecretsManager c)),
     secrets_GetSecret = (\<lambda>ref st. Inr ref),
     LookupEnv = (\<lambda>n. if n = ''KUBERNETES_SERVICE_HOST'' then Some ''10.0.0.1'' else None)\<rparr>"

text \<open>The three defaults that \<open>loadDefaultSecretConfig\<close> installs, as a storage of
  their own, and one of its guarded assignments.\<close>

definition defaultSecretStorage :: storage where
  "defaultSecretStorage =
     [''env'' \<mapsto> EnvSecretProvider (GenericConfig False False False),
      ''file'' \<mapsto> FileSecretProvider (FileConfig (GenericConfig False False False) ''''),
      ''plaintext'' \<mapsto> PlainSecretProvider (GenericConfig False False False)]"

definition installDefault :: "storage \<Rightarrow> string \<Rightarrow> SecretStorage \<Rightarrow> storage" where
  "installDefault st k v = (if st k = None then st(k \<mapsto> v) else st)"

definition loadedOrFailed :: "error option \<times> storage \<Rightarrow> storage \<Rightarrow> string \<Rightarrow> bool" where
  "loadedOrFailed r st name \<longleftrightarrow>
     (fst r \<noteq> None \<and> snd r = st) \<or> (fst r = None \<and> (\<exists>p. snd r = st(name \<mapsto> p)))"

section \<open>Provider reconciliation (package registry)\<close>

text \<open>
  \<open>ConfigProvider\<close> as configured and \<open>models.Provider\<close> as stored; a provider row
  carries the id and the soft-delete time of \<open>models.Model\<close>. The providers table is
  the list of its rows.
\<close>

record ConfigProvider =
  CfgKind :: string
  CfgDomain :: string
  CfgClientID :: string
  CfgClientSecret :: string

record Provider =
  ProviderRowID :: ID
  ProviderKind :: string
  ProviderDomain :: string
  ProviderClientID :: string
  ProviderClientSecret :: string
  ProviderDeletedAt :: "Time option"

type_synonym providersTable = "Provider list"

text \<open>\<open>strings.TrimSpace\<close> and the two \<open>regexp.ReplaceAllString\<close> calls of
  \<open>cleanupDomain\<close> are library functions, taken as parameters.\<close>

record textLib =
  TrimSpace :: "string \<Rightarrow> string"
  dashAdminRemover :: "string \<Rightarrow> string"
  protocolRemover :: "string \<Rightarrow> string"

definition cleanupDomain :: "textLib \<Rightarrow> ConfigProvider \<Rightarrow> ConfigProvider" where
  "cleanupDomain l p =
     p\<lparr>CfgDomain := protocolRemover l (dashAdminRemover l (TrimSpace l (CfgDomain p)))\<rparr>"

text \<open>\<open>validate.Struct\<close> with the tags of \<open>ConfigProvider\<close>: all four fields are
  required, that is non-empty.\<close>

definition validateStruct :: "ConfigProvider \<Rightarrow> error option" where
  "validateStruct p =
     (if CfgKind p = [] \<or> CfgDomain p = [] \<or> CfgClientID p = [] \<or> CfgClientSecret p = []
      then Some (ErrOther ''required'') else None)"

definition liveProvider :: "Provider \<Rightarrow> bool" where
  "liveProvider q = (ProviderDeletedAt q = None)"

definition sameProvider :: "Provider \<Rightarrow> Provider \<Rightarrow> bool" where
  "sameProvider p q = (ProviderKind q = ProviderKind p \<and> ProviderDomain q = ProviderDomain p)"

definition newProviderID :: "providersTable \<Rightarrow> ID" where
  "newProviderID t = Suc (foldr max (map ProviderRowID t) 0)"

text \<open>Modelled from the spec: \<open>data.CreateOrUpdateProvider\<close> upserts a provider
  (section 4.8, step 4): the live row of the same kind and domain is overwritten and keeps
  its id; without such a row a new row is inserted under a new id. The stored row is
  returned.\<close>

definition CreateOrUpdateProvider :: "providersTable \<Rightarrow> Provider \<Rightarrow> error + (providersTable \<times> Provider)" where
  "CreateOrUpdateProvider t p =
     (case find (\<lambda>q. liveProvider q \<and> sameProvider p q) t of
        Some existing \<Rightarrow>
          (let final = p\<lparr>ProviderRowID := ProviderRowID existing\<rparr>
           in Inr (map (\<lambda>q. if ProviderRowID q = ProviderRowID existing then final else q) t,
                   final))
      | None \<Rightarrow>
          (let final = p\<lparr>ProviderRowID := newProviderID t\<rparr>
           in Inr (t @ [final], final)))"


definition toProvider :: "ConfigProvider \<Rightarrow> Provider" where
  "toProvider p = \<lparr>ProviderRowID = 0, ProviderKind = CfgKind p, ProviderDomain = CfgDomain p,
     ProviderClientID = CfgClientID p, ProviderClientSecret = CfgClientSecret p,
     ProviderDeletedAt = None\<rparr>"

fun importProviders_loop ::
    "textLib \<Rightarrow> providersTable \<Rightarrow> ConfigProvider list \<Rightarrow> ID list \<Rightarrow> error option \<times> providersTable \<times> ID list" where
  "importProviders_loop l t [] toKeep = (None, t, toKeep)"
| "importProviders_loop l t (p # providers) toKeep =
     (let p' = cleanupDomain l p in
      case validateStruct p' of
        Some e \<Rightarrow> (Some (Wrap ''invalid domain'' e), t, toKeep)
      | None \<Rightarrow>
          (case CreateOrUpdateProvider t (toProvider p') of
             Inl e \<Rightarrow> (Some e, t, toKeep)
           | Inr (t', final) \<Rightarrow>
               importProviders_loop l t' providers (toKeep @ [ProviderRowID final])))"










section \<open>Theorems\<close>

subsection \<open>Password requirements\<close>

text \<open>
  C7. Password validation is claimed to succeed exactly when the password has at least 8
  characters, contains neither the user name nor the service name, has no run of four
  identical characters and no run of four consecutive code points. The loop of
  \<open>hasSequence\<close> keeps \<open>char\<close> at the first character of a run instead of
  advancing it, so it misses real sequences and reports false ones: for user \<open>bob\<close>
  the password \<open>abcdwxyz\<close> (two runs of four consecutive code points) is accepted,
  and \<open>abbbqrqr\<close> (no run of four of either kind) is rejected as a sequence.
\<close>

theorem checkPasswordRequirements_sequence_slip:
  "checkPasswordRequirements (go ''bob'') (go ''abcdwxyz'') = None
   \<and> \<not> passwordAcceptable (go ''bob'') (go ''abcdwxyz'')
   \<and> checkPasswordRequirements (go ''bob'') (go ''abbbqrqr'')
       = Some (ValidateError [(''password'', [''must not have common sequences of characters''])])
   \<and> passwordAcceptable (go ''bob'') (go ''abbbqrqr'')"
  by (simp add: checkPasswordRequirements_def passwordAcceptable_def go_def byteLen_def
      runeLen_def hasSequence_def hasRepeat_def)

subsection \<open>The data store\<close>

lemma find_append_new: "find P xs = None \<Longrightarrow> P x \<Longrightarrow> find P (xs @ [x]) = Some x"
  by (induction xs) (auto split: if_splits)

lemma find_map_replace:
  "find (\<lambda>c. f c = k) xs = Some y \<Longrightarrow> f x = k \<Longrightarrow>
   find (\<lambda>c. f c = k) (map (\<lambda>c. if f c = k then x else c) xs) = Some x"
  by (induction xs) (auto split: if_splits)

lemma find_SomeD: "find P xs = Some x \<Longrightarrow> P x"
  by (auto simp: find_Some_iff)

lemma GetCredentialByUserID_IdentityID:
  "GetCredentialByUserID d uid = Inr c \<Longrightarrow> IdentityID c = uid"
  by (auto simp: GetCredentialByUserID_def split: option.splits dest: find_SomeD)

lemma GetCredential_CreateCredential:
  "data_CreateCredential d c = Inr d' \<Longrightarrow> GetCredentialByUserID d' (IdentityID c) = Inr c"
  by (auto simp: data_CreateCredential_def GetCredentialByUserID_def find_append_new
      split: option.splits)

lemma GetCredential_UpdateCredential:
  "data_UpdateCredential d c = Inr d' \<Longrightarrow> GetCredentialByUserID d' (IdentityID c) = Inr c"
  by (auto simp: data_UpdateCredential_def GetCredentialByUserID_def find_map_replace
      split: option.splits)

lemma credentials_UpdateAccessKey:
  "UpdateAccessKey d k = Inr d' \<Longrightarrow> credentials d' = credentials d"
  by (auto simp: UpdateAccessKey_def split: option.splits)

lemma GetCredential_UpdateAccessKey:
  "UpdateAccessKey d k = Inr d' \<Longrightarrow> GetCredentialByUserID d' uid = GetCredentialByUserID d uid"
  by (simp add: GetCredentialByUserID_def credentials_UpdateAccessKey)

lemma GetAccessKey_UpdateAccessKey:
  "UpdateAccessKey d k = Inr d' \<Longrightarrow> GetAccessKeyByKeyID d' (KeyID k) = Inr k"
  by (auto simp: UpdateAccessKey_def GetAccessKeyByKeyID_def find_map_replace
      split: option.splits)

lemma accessKeys_CreateCredential:
  "data_CreateCredential d c = Inr d' \<Longrightarrow> accessKeys d' = accessKeys d"
  by (auto simp: data_CreateCredential_def split: option.splits)

lemma accessKeys_UpdateCredential:
  "data_UpdateCredential d c = Inr d' \<Longrightarrow> accessKeys d' = accessKeys d"
  by (auto simp: data_UpdateCredential_def split: option.splits)

lemmas eval_defs = bruce_def testLib_def testKey_def testDB_def selfCtx_def adminCtx_def
  updateCredential_def CreateCredential_def UpdateCredential_def checkPasswordRequirements_def
  go_def byteLen_def runeLen_def hasSequence_def hasRepeat_def GetCredentialByUserID_def
  data_CreateCredential_def data_UpdateCredential_def UpdateAccessKey_def GetAccessKeyByKeyID_def
  CreateProviderUser_def InfraProvider_def IsAuthorized_def isIdentitySelf_def
  ScopeAllowCreateAccessKey_def ScopePasswordReset_def InfraAdminRole_def Let_def

subsection \<open>Credentials\<close>

text \<open>What a successful \<open>updateCredential\<close> did to the store: it created the
  credential (only when the caller is not the user), or it updated the stored one and,
  for the user's own change with an access key, persisted the key.\<close>

lemma updateCredential_created:
  assumes "fst (updateCredential l rCtx user pw isSelf) = None"
    and "GetCredentialByUserID (DBTxn rCtx) (ID user) = Inl e"
  shows "\<exists>h d1. \<not> isSelf
      \<and> data_CreateCredential (DBTxn rCtx)
           \<lparr>IdentityID = ID user, PasswordHash = h, OneTimePassword = True\<rparr> = Inr d1
      \<and> snd (updateCredential l rCtx user pw isSelf) = rCtx\<lparr>DBTxn := d1\<rparr>"
  using assms
  by (auto simp: updateCredential_def split: option.splits sum.splits if_splits)

lemma updateCredential_updated:
  assumes "fst (updateCredential l rCtx user pw isSelf) = None"
    and "GetCredentialByUserID (DBTxn rCtx) (ID user) = Inr uc"
    and "\<not> isSelf \<or> AuthAccessKey rCtx = None"
  shows "\<exists>h d1.
      data_UpdateCredential (DBTxn rCtx) (uc\<lparr>PasswordHash := h, OneTimePassword := \<not> isSelf\<rparr>)
        = Inr d1
      \<and> snd (updateCredential l rCtx user pw isSelf) = rCtx\<lparr>DBTxn := d1\<rparr>"
  using assms
  by (cases isSelf) (auto simp: updateCredential_def Let_def split: option.splits sum.splits)

lemma updateCredential_updated_key:
  assumes "fst (updateCredential l rCtx user pw True) = None"
    and "GetCredentialByUserID (DBTxn rCtx) (ID user) = Inr uc"
    and "AuthAccessKey rCtx = Some k"
  shows "\<exists>h d1 d2.
      data_UpdateCredential (DBTxn rCtx) (uc\<lparr>PasswordHash := h, OneTimePassword := False\<rparr>)
        = Inr d1
      \<and> UpdateAccessKey d1 (k\<lparr>Scopes := filter (\<lambda>s. s \<noteq> ScopePasswordReset) (Scopes k)\<rparr>)
        = Inr d2
      \<and> snd (updateCredential l rCtx user pw True)
        = rCtx\<lparr>DBTxn := d2, AuthAccessKey :=
            Some (k\<lparr>Scopes := filter (\<lambda>s. s \<noteq> ScopePasswordReset) (Scopes k)\<rparr>)\<rparr>"
  using assms
  by (fastforce simp: updateCredential_def Let_def split: option.splits sum.splits)

lemma updateCredential_OneTimePassword:
  assumes ok: "fst (updateCredential l rCtx user pw isSelf) = None"
  shows "\<exists>c. GetCredentialByUserID (DBTxn (snd (updateCredential l rCtx user pw isSelf))) (ID user)
              = Inr c \<and> OneTimePassword c = (\<not> isSelf)"
proof (cases "GetCredentialByUserID (DBTxn rCtx) (ID user)")
  case (Inl e)
  from updateCredential_created [OF ok Inl] obtain h d1 where ns: "\<not> isSelf"
    and cr: "data_CreateCredential (DBTxn rCtx)
               \<lparr>IdentityID = ID user, PasswordHash = h, OneTimePassword = True\<rparr> = Inr d1"
    and r: "snd (updateCredential l rCtx user pw isSelf) = rCtx\<lparr>DBTxn := d1\<rparr>"
    by blast
  from GetCredential_CreateCredential [OF cr] ns r show ?thesis by simp
next
  case (Inr uc)
  then have uid: "IdentityID uc = ID user" by (rule GetCredentialByUserID_IdentityID)
  have "\<exists>h d1.
      data_UpdateCredential (DBTxn rCtx) (uc\<lparr>PasswordHash := h, OneTimePassword := \<not> isSelf\<rparr>)
        = Inr d1
      \<and> (DBTxn (snd (updateCredential l rCtx user pw isSelf)) = d1 \<or>
        (\<exists>k d2. UpdateAccessKey d1 k = Inr d2
           \<and> DBTxn (snd (updateCredential l rCtx user pw isSelf)) = d2))"
  proof (cases "\<not> isSelf \<or> AuthAccessKey rCtx = None")
    case True
    from updateCredential_updated [OF ok Inr True] show ?thesis by fastforce
  next
    case False
    then obtain k where "isSelf" and "AuthAccessKey rCtx = Some k" by auto
    with updateCredential_updated_key [of l rCtx user pw uc k] ok Inr show ?thesis
      by fastforce
  qed
  then obtain h d1 where
    up: "data_UpdateCredential (DBTxn rCtx) (uc\<lparr>PasswordHash := h, OneTimePassword := \<not> isSelf\<rparr>)
           = Inr d1"
    and r: "DBTxn (snd (updateCredential l rCtx user pw isSelf)) = d1 \<or>
        (\<exists>k d2. UpdateAccessKey d1 k = Inr d2
           \<and> DBTxn (snd (updateCredential l rCtx user pw isSelf)) = d2)"
    by blast
  from GetCredential_UpdateCredential [OF up] uid
  have g: "GetCredentialByUserID d1 (ID user)
             = Inr (uc\<lparr>PasswordHash := h, OneTimePassword := \<not> isSelf\<rparr>)"
    by simp
  from r show ?thesis
  proof
    assume "DBTxn (snd (updateCredential l rCtx user pw isSelf)) = d1"
    with g show ?thesis by simp
  next
    assume "\<exists>k d2. UpdateAccessKey d1 k = Inr d2
       \<and> DBTxn (snd (updateCredential l rCtx user pw isSelf)) = d2"
    then obtain k d2 where "UpdateAccessKey d1 k = Inr d2"
      and "DBTxn (snd (updateCredential l rCtx user pw isSelf)) = d2" by blast
    with g GetCredential_UpdateAccessKey show ?thesis by simp
  qed
qed

lemma CreateCredential_OneTimePassword:
  assumes "fst (CreateCredential l rCtx user) = Inr tmp"
  shows "\<exists>c. GetCredentialByUserID (DBTxn (snd (CreateCredential l rCtx user))) (ID user) = Inr c
              \<and> OneTimePassword c"
proof -
  from assms obtain h d1 where
    cr: "data_CreateCredential (DBTxn rCtx)
               \<lparr>IdentityID = ID user, PasswordHash = h, OneTimePassword = True\<rparr> = Inr d1"
    and r: "snd (CreateCredential l rCtx user) = rCtx\<lparr>DBTxn := d1\<lparr>providerUsers :=
              insert (InfraProvider d1, ID user) (providerUsers d1)\<rparr>\<rparr>"
    by (auto simp: CreateCredential_def CreateProviderUser_def
        split: option.splits sum.splits if_splits)
  from GetCredential_CreateCredential [OF cr] r show ?thesis
    by (simp add: GetCredentialByUserID_def)
qed

text \<open>
  C10. After a successful credential update the stored credential of the user has
  \<open>OneTimePassword\<close> set exactly when the update was not made by the user themself:
  a credential created by an administrator (\<open>CreateCredential\<close>, or \<open>updateCredential\<close>
  for a user without one) and one updated by an administrator are one-time passwords, and
  the user's own password change clears the flag.
\<close>

theorem credential_OneTimePassword_iff_not_self:
  "(fst (updateCredential l rCtx user pw isSelf) = None \<longrightarrow>
      (\<exists>c. GetCredentialByUserID (DBTxn (snd (updateCredential l rCtx user pw isSelf))) (ID user)
              = Inr c \<and> OneTimePassword c = (\<not> isSelf)))
   \<and> (fst (CreateCredential l rCtx user) = Inr tmp \<longrightarrow>
      (\<exists>c. GetCredentialByUserID (DBTxn (snd (CreateCredential l rCtx user))) (ID user) = Inr c
              \<and> OneTimePassword c))"
  using updateCredential_OneTimePassword CreateCredential_OneTimePassword by blast

theorem credential_OneTimePassword_witness:
  "fst (updateCredential testLib selfCtx bruce (go ''newPassword'') True) = None
   \<and> (\<exists>c. GetCredentialByUserID
            (DBTxn (snd (updateCredential testLib selfCtx bruce (go ''newPassword'') True))) 7
          = Inr c \<and> \<not> OneTimePassword c)
   \<and> fst (updateCredential testLib (adminCtx\<lparr>DBTxn := testDB\<rparr>) bruce (go ''newPassword'') False)
       = None
   \<and> (\<exists>c. GetCredentialByUserID
            (DBTxn (snd (updateCredential testLib (adminCtx\<lparr>DBTxn := testDB\<rparr>) bruce
                           (go ''newPassword'') False))) 7
          = Inr c \<and> OneTimePassword c)
   \<and> fst (CreateCredential testLib adminCtx bruce) = Inr (go ''tmpPassw0rd!'')
   \<and> (\<exists>c. GetCredentialByUserID (DBTxn (snd (CreateCredential testLib adminCtx bruce))) 7 = Inr c
          \<and> OneTimePassword c)"
proof -
  have s: "fst (updateCredential testLib selfCtx bruce (go ''newPassword'') True) = None"
    by (simp add: eval_defs)
  have a: "fst (updateCredential testLib (adminCtx\<lparr>DBTxn := testDB\<rparr>) bruce (go ''newPassword'')
             False) = None"
    by (simp add: eval_defs)
  have c: "fst (CreateCredential testLib adminCtx bruce) = Inr (go ''tmpPassw0rd!'')"
    by (simp add: eval_defs)
  have i: "ID bruce = 7" by (simp add: bruce_def)
  from s a c i
    credential_OneTimePassword_iff_not_self
      [of testLib selfCtx bruce "go ''newPassword''" True]
    credential_OneTimePassword_iff_not_self
      [of testLib "adminCtx\<lparr>DBTxn := testDB\<rparr>" bruce "go ''newPassword''" False]
    credential_OneTimePassword_iff_not_self
      [of testLib adminCtx bruce _ _ "go ''tmpPassw0rd!''"]
  show ?thesis by simp
qed

text \<open>
  C9. When an identity changes its own password successfully while authenticated with an
  access key, the key held by the request and the key stored under its key id both keep
  every field and every scope, in order, except \<open>password-reset\<close>, which is removed. A
  successful change made by an administrator for another user leaves the authenticated
  access key and the stored access keys as they were.
\<close>

theorem updateCredential_removes_password_reset_scope_only:
  "(fst (updateCredential l rCtx user pw True) = None \<and> AuthAccessKey rCtx = Some k \<longrightarrow>
      (let k' = k\<lparr>Scopes := filter (\<lambda>s. s \<noteq> ScopePasswordReset) (Scopes k)\<rparr>;
           rCtx' = snd (updateCredential l rCtx user pw True)
       in AuthAccessKey rCtx' = Some k'
          \<and> GetAccessKeyByKeyID (DBTxn rCtx') (KeyID k) = Inr k'
          \<and> ScopePasswordReset \<notin> set (Scopes k')
          \<and> set (Scopes k') = set (Scopes k) - {ScopePasswordReset}))
   \<and> (fst (updateCredential l rCtx user pw False) = None \<longrightarrow>
      AuthAccessKey (snd (updateCredential l rCtx user pw False)) = AuthAccessKey rCtx
      \<and> accessKeys (DBTxn (snd (updateCredential l rCtx user pw False)))
          = accessKeys (DBTxn rCtx))"
proof (intro conjI impI)
  assume h: "fst (updateCredential l rCtx user pw True) = None \<and> AuthAccessKey rCtx = Some k"
  let ?k' = "k\<lparr>Scopes := filter (\<lambda>s. s \<noteq> ScopePasswordReset) (Scopes k)\<rparr>"
  from h obtain uc where g: "GetCredentialByUserID (DBTxn rCtx) (ID user) = Inr uc"
    using updateCredential_created [of l rCtx user pw True]
    by (cases "GetCredentialByUserID (DBTxn rCtx) (ID user)") auto
  from updateCredential_updated_key [OF _ g, of l pw k] h obtain d1 d2 where
    u: "UpdateAccessKey d1 ?k' = Inr d2"
    and r: "snd (updateCredential l rCtx user pw True)
              = rCtx\<lparr>DBTxn := d2, AuthAccessKey := Some ?k'\<rparr>"
    by auto
  from GetAccessKey_UpdateAccessKey [OF u] r
  show "let k' = ?k'; rCtx' = snd (updateCredential l rCtx user pw True)
       in AuthAccessKey rCtx' = Some k'
          \<and> GetAccessKeyByKeyID (DBTxn rCtx') (KeyID k) = Inr k'
          \<and> ScopePasswordReset \<notin> set (Scopes k')
          \<and> set (Scopes k') = set (Scopes k) - {ScopePasswordReset}"
    by (auto simp: Let_def)
next
  assume ok: "fst (updateCredential l rCtx user pw False) = None"
  show "AuthAccessKey (snd (updateCredential l rCtx user pw False)) = AuthAccessKey rCtx"
  proof (cases "GetCredentialByUserID (DBTxn rCtx) (ID user)")
    case (Inl e)
    from updateCredential_created [OF ok Inl] show ?thesis by auto
  next
    case (Inr uc)
    from updateCredential_updated [OF ok Inr] show ?thesis by auto
  qed
next
  assume ok: "fst (updateCredential l rCtx user pw False) = None"
  show "accessKeys (DBTxn (snd (updateCredential l rCtx user pw False)))
          = accessKeys (DBTxn rCtx)"
  proof (cases "GetCredentialByUserID (DBTxn rCtx) (ID user)")
    case (Inl e)
    from updateCredential_created [OF ok Inl] show ?thesis
      by (auto simp: accessKeys_CreateCredential)
  next
    case (Inr uc)
    from updateCredential_updated [OF ok Inr] show ?thesis
      by (auto simp: accessKeys_UpdateCredential)
  qed
qed

theorem updateCredential_scopes_witness:
  "fst (updateCredential testLib selfCtx bruce (go ''newPassword'') True) = None
   \<and> AuthAccessKey selfCtx = Some testKey
   \<and> Scopes testKey = [ScopeAllowCreateAccessKey, ScopePasswordReset]
   \<and> AuthAccessKey (snd (updateCredential testLib selfCtx bruce (go ''newPassword'') True))
       = Some (testKey\<lparr>Scopes := [ScopeAllowCreateAccessKey]\<rparr>)
   \<and> GetAccessKeyByKeyID
        (DBTxn (snd (updateCredential testLib selfCtx bruce (go ''newPassword'') True)))
        ''0000000001'' = Inr (testKey\<lparr>Scopes := [ScopeAllowCreateAccessKey]\<rparr>)
   \<and> fst (updateCredential testLib (selfCtx\<lparr>AuthUser := None, InfraRoles := [InfraAdminRole]\<rparr>)
            bruce (go ''newPassword'') False) = None
   \<and> AuthAccessKey (snd (updateCredential testLib
            (selfCtx\<lparr>AuthUser := None, InfraRoles := [InfraAdminRole]\<rparr>)
            bruce (go ''newPassword'') False)) = Some testKey"
proof -
  have s: "fst (updateCredential testLib selfCtx bruce (go ''newPassword'') True) = None"
    by (simp add: eval_defs)
  have k: "AuthAccessKey selfCtx = Some testKey"
    by (simp add: selfCtx_def)
  have a: "fst (updateCredential testLib (selfCtx\<lparr>AuthUser := None, InfraRoles := [InfraAdminRole]\<rparr>)
            bruce (go ''newPassword'') False) = None"
    by (simp add: eval_defs)
  have f: "testKey\<lparr>Scopes := filter (\<lambda>s. s \<noteq> ScopePasswordReset) (Scopes testKey)\<rparr>
            = testKey\<lparr>Scopes := [ScopeAllowCreateAccessKey]\<rparr>"
    "KeyID testKey = ''0000000001''"
    "Scopes testKey = [ScopeAllowCreateAccessKey, ScopePasswordReset]"
    by (simp_all add: testKey_def ScopePasswordReset_def ScopeAllowCreateAccessKey_def)
  from s k a f
    updateCredential_removes_password_reset_scope_only
      [of testLib selfCtx bruce "go ''newPassword''" testKey]
    updateCredential_removes_password_reset_scope_only
      [of testLib "selfCtx\<lparr>AuthUser := None, InfraRoles := [InfraAdminRole]\<rparr>" bruce
          "go ''newPassword''" testKey]
  show ?thesis by (simp add: Let_def selfCtx_def)
qed

subsection \<open>Bootstrap of a configured access key\<close>













subsection \<open>Password reset request\<close>

lemma GetIdentity_error: "GetIdentity d name = Inl e \<Longrightarrow> e = ErrNotFound"
  by (auto simp: GetIdentity_def split: option.splits)

lemma GetCredentialByUserID_error: "GetCredentialByUserID d uid = Inl e \<Longrightarrow> e = ErrNotFound"
  by (auto simp: GetCredentialByUserID_def split: option.splits)

text \<open>
  C4 (as stated). The claim has \<open>RequestPasswordReset\<close> succeed for every submitted
  email. For the email of an identity that has no credential, with the rate limit not
  reached, the handler returns the not-found error of the credential lookup.
\<close>

theorem RequestPasswordReset_without_credential_fails:
  "fst (RequestPasswordReset testAPI (adminCtx\<lparr>DBTxn := testDB\<lparr>credentials := []\<rparr>\<rparr>) []
          (go ''bruce@example.com'')) = Some ErrNotFound"
  by (simp add: RequestPasswordReset_def testAPI_def adminCtx_def testDB_def bruce_def
      GetIdentity_def GetCredentialByUserID_def go_def)

text \<open>
  C4 (amended). The result of \<open>RequestPasswordReset\<close> in every case, as the error
  returned, the store and the outbox afterwards:
  when the rate limiter reports an error, that error, nothing stored, nothing sent;
  otherwise, when no identity matches the email, success, nothing stored, nothing sent;
  when the matching identity has no credential, the not-found error of the credential
  lookup, nothing stored, nothing sent;
  when it has one, a reset token for that identity with 15 minutes to live is stored,
  and then: without an organization on the request the handler panics; when the mailer
  reports an error, that error is returned and nothing is sent; otherwise the request
  succeeds and exactly one mail is added to the outbox, to the submitted address, with
  the link \<open>https://<domain>/password-reset?token=<token>\<close> wrapped with the
  organization's domain and the identity's verification token.
  Hence the request succeeds exactly when the rate limit is not reached and either no
  identity matches, or the matching identity has a credential, the request has an
  organization and the mailer reports no error.
\<close>

theorem RequestPasswordReset_outcome:
  "(RateOK a email 10 = None \<and> GetIdentity (DBTxn rCtx) email = Inl ErrNotFound \<longrightarrow>
      RequestPasswordReset a rCtx outbox email = (None, DBTxn rCtx, outbox))
   \<and> (fst (RequestPasswordReset a rCtx outbox email) = None \<longleftrightarrow>
        RateOK a email 10 = None
        \<and> (GetIdentity (DBTxn rCtx) email = Inl ErrNotFound
           \<or> (\<exists>user c org m. GetIdentity (DBTxn rCtx) email = Inr user
                 \<and> GetCredentialByUserID (DBTxn rCtx) (ID user) = Inr c
                 \<and> AuthOrganization rCtx = Some org
                 \<and> Recipient m = email \<and> SendError a m = None
                 \<and> snd (snd (RequestPasswordReset a rCtx outbox email)) = outbox @ [m])))
   \<and> (\<forall>e. RateOK a email 10 = Some e \<longrightarrow>
         RequestPasswordReset a rCtx outbox email = (Some e, DBTxn rCtx, outbox))
   \<and> (\<forall>e. GetIdentity (DBTxn rCtx) email = Inl e \<longrightarrow> e = ErrNotFound)
   \<and> (\<forall>user. RateOK a email 10 = None \<and> GetIdentity (DBTxn rCtx) email = Inr user \<longrightarrow>
         (\<forall>e. GetCredentialByUserID (DBTxn rCtx) (ID user) = Inl e \<longrightarrow>
            e = ErrNotFound
            \<and> RequestPasswordReset a rCtx outbox email = (Some ErrNotFound, DBTxn rCtx, outbox))
         \<and> (\<forall>c. GetCredentialByUserID (DBTxn rCtx) (ID user) = Inr c \<longrightarrow>
              (let d1 = (DBTxn rCtx)\<lparr>resetTokens :=
                          resetTokens (DBTxn rCtx) @ [(ID user, NewToken a, 15)]\<rparr>
               in (AuthOrganization rCtx = None \<longrightarrow>
                     RequestPasswordReset a rCtx outbox email
                       = (Some (Panic ''nil pointer dereference''), d1, outbox))
                  \<and> (\<forall>org. AuthOrganization rCtx = Some org \<longrightarrow>
                        (let m = \<lparr>Recipient = email,
                                  Link = wrapLinkWithVerification a
                                    (''https://'' @ Domain org @ ''/password-reset?token=''
                                       @ NewToken a)
                                    (Domain org) (VerificationToken user)\<rparr>
                         in (\<forall>e. SendError a m = Some e \<longrightarrow>
                               RequestPasswordReset a rCtx outbox email = (Some e, d1, outbox))
                            \<and> (SendError a m = None \<longrightarrow>
                                 RequestPasswordReset a rCtx outbox email
                                   = (None, d1, outbox @ [m])))))))"
  (is "?unknown \<and> ?iff \<and> ?rate \<and> ?iderr \<and> ?known")
proof -
  have unknown: ?unknown
    by (simp add: RequestPasswordReset_def)
  have rate: ?rate
    by (simp add: RequestPasswordReset_def)
  have iderr: ?iderr
    by (auto dest: GetIdentity_error)
  have known: ?known
  proof (intro allI impI, elim conjE)
    fix user
    assume rt: "RateOK a email 10 = None" and ident: "GetIdentity (DBTxn rCtx) email = Inr user"
    have nocred: "e = ErrNotFound
        \<and> RequestPasswordReset a rCtx outbox email = (Some ErrNotFound, DBTxn rCtx, outbox)"
      if "GetCredentialByUserID (DBTxn rCtx) (ID user) = Inl e" for e
    proof -
      from that have "e = ErrNotFound" by (rule GetCredentialByUserID_error)
      with that rt ident show ?thesis by (simp add: RequestPasswordReset_def)
    qed
    have noorg: "RequestPasswordReset a rCtx outbox email
          = (Some (Panic ''nil pointer dereference''),
             (DBTxn rCtx)\<lparr>resetTokens := resetTokens (DBTxn rCtx) @ [(ID user, NewToken a, 15)]\<rparr>,
             outbox)"
      if "GetCredentialByUserID (DBTxn rCtx) (ID user) = Inr c" "AuthOrganization rCtx = None"
      for c
      using that rt ident by (simp add: RequestPasswordReset_def CreatePasswordResetToken_def)
    have sent: "RequestPasswordReset a rCtx outbox email =
            (case SendError a m of
               Some e \<Rightarrow> (Some e, (DBTxn rCtx)\<lparr>resetTokens :=
                              resetTokens (DBTxn rCtx) @ [(ID user, NewToken a, 15)]\<rparr>, outbox)
             | None \<Rightarrow> (None, (DBTxn rCtx)\<lparr>resetTokens :=
                              resetTokens (DBTxn rCtx) @ [(ID user, NewToken a, 15)]\<rparr>,
                          outbox @ [m]))"
      if "GetCredentialByUserID (DBTxn rCtx) (ID user) = Inr c" "AuthOrganization rCtx = Some org"
        "m = \<lparr>Recipient = email,
              Link = wrapLinkWithVerification a
                (''https://'' @ Domain org @ ''/password-reset?token='' @ NewToken a)
                (Domain org) (VerificationToken user)\<rparr>"
      for c org m
      using that rt ident
      by (simp add: RequestPasswordReset_def CreatePasswordResetToken_def
          SendPasswordResetEmail_def split: option.splits)
    show "(\<forall>e. GetCredentialByUserID (DBTxn rCtx) (ID user) = Inl e \<longrightarrow>
            e = ErrNotFound
            \<and> RequestPasswordReset a rCtx outbox email = (Some ErrNotFound, DBTxn rCtx, outbox))
         \<and> (\<forall>c. GetCredentialByUserID (DBTxn rCtx) (ID user) = Inr c \<longrightarrow>
              (let d1 = (DBTxn rCtx)\<lparr>resetTokens :=
                          resetTokens (DBTxn rCtx) @ [(ID user, NewToken a, 15)]\<rparr>
               in (AuthOrganization rCtx = None \<longrightarrow>
                     RequestPasswordReset a rCtx outbox email
                       = (Some (Panic ''nil pointer dereference''), d1, outbox))
                  \<and> (\<forall>org. AuthOrganization rCtx = Some org \<longrightarrow>
                        (let m = \<lparr>Recipient = email,
                                  Link = wrapLinkWithVerification a
                                    (''https://'' @ Domain org @ ''/password-reset?token=''
                                       @ NewToken a)
                                    (Domain org) (VerificationToken user)\<rparr>
                         in (\<forall>e. SendError a m = Some e \<longrightarrow>
                               RequestPasswordReset a rCtx outbox email = (Some e, d1, outbox))
                            \<and> (SendError a m = None \<longrightarrow>
                                 RequestPasswordReset a rCtx outbox email
                                   = (None, d1, outbox @ [m]))))))"
      unfolding Let_def
    proof (intro conjI allI impI)
      fix e assume "GetCredentialByUserID (DBTxn rCtx) (ID user) = Inl e"
      from nocred [OF this] show "e = ErrNotFound"
        and "RequestPasswordReset a rCtx outbox email = (Some ErrNotFound, DBTxn rCtx, outbox)"
        by simp_all
    next
      fix c assume "GetCredentialByUserID (DBTxn rCtx) (ID user) = Inr c"
        and "AuthOrganization rCtx = None"
      then show "RequestPasswordReset a rCtx outbox email
          = (Some (Panic ''nil pointer dereference''),
             (DBTxn rCtx)\<lparr>resetTokens := resetTokens (DBTxn rCtx) @ [(ID user, NewToken a, 15)]\<rparr>,
             outbox)"
        by (rule noorg)
    next
      fix c org e
      assume c: "GetCredentialByUserID (DBTxn rCtx) (ID user) = Inr c"
        and o: "AuthOrganization rCtx = Some org"
        and s: "SendError a \<lparr>Recipient = email,
              Link = wrapLinkWithVerification a
                (''https://'' @ Domain org @ ''/password-reset?token='' @ NewToken a)
                (Domain org) (VerificationToken user)\<rparr> = Some e"
      from sent [OF c o refl] s
      show "RequestPasswordReset a rCtx outbox email
          = (Some e, (DBTxn rCtx)\<lparr>resetTokens :=
                        resetTokens (DBTxn rCtx) @ [(ID user, NewToken a, 15)]\<rparr>, outbox)"
        by simp
    next
      fix c org
      assume c: "GetCredentialByUserID (DBTxn rCtx) (ID user) = Inr c"
        and o: "AuthOrganization rCtx = Some org"
        and s: "SendError a \<lparr>Recipient = email,
              Link = wrapLinkWithVerification a
                (''https://'' @ Domain org @ ''/password-reset?token='' @ NewToken a)
                (Domain org) (VerificationToken user)\<rparr> = None"
      from sent [OF c o refl] s
      show "RequestPasswordReset a rCtx outbox email
          = (None, (DBTxn rCtx)\<lparr>resetTokens :=
                        resetTokens (DBTxn rCtx) @ [(ID user, NewToken a, 15)]\<rparr>,
             outbox @ [\<lparr>Recipient = email,
              Link = wrapLinkWithVerification a
                (''https://'' @ Domain org @ ''/password-reset?token='' @ NewToken a)
                (Domain org) (VerificationToken user)\<rparr>])"
        by simp
    qed
  qed
  have iff: ?iff
  proof (cases "RateOK a email 10")
    case (Some e)
    then show ?thesis by (simp add: RequestPasswordReset_def)
  next
    case None
    note rate = None
    show ?thesis
    proof (cases "GetIdentity (DBTxn rCtx) email")
      case (Inl e)
      then have "e = ErrNotFound" by (rule GetIdentity_error)
      with rate Inl show ?thesis by (simp add: RequestPasswordReset_def)
    next
      case (Inr user)
      note ident = Inr
      show ?thesis
      proof (cases "GetCredentialByUserID (DBTxn rCtx) (ID user)")
        case (Inl e)
        with rate ident show ?thesis by (simp add: RequestPasswordReset_def)
      next
        case (Inr c)
        note cred = Inr
        show ?thesis
        proof (cases "AuthOrganization rCtx")
          case None
          with rate ident cred show ?thesis
            by (simp add: RequestPasswordReset_def CreatePasswordResetToken_def)
        next
          case (Some org)
          let ?m = "\<lparr>Recipient = email,
                   Link = wrapLinkWithVerification a
                     (''https://'' @ Domain org @ ''/password-reset?token='' @ NewToken a)
                     (Domain org) (VerificationToken user)\<rparr>"
          have r: "RequestPasswordReset a rCtx outbox email =
            (case SendError a ?m of
               Some e \<Rightarrow> (Some e, (DBTxn rCtx)\<lparr>resetTokens :=
                              resetTokens (DBTxn rCtx) @ [(ID user, NewToken a, 15)]\<rparr>, outbox)
             | None \<Rightarrow> (None, (DBTxn rCtx)\<lparr>resetTokens :=
                              resetTokens (DBTxn rCtx) @ [(ID user, NewToken a, 15)]\<rparr>,
                          outbox @ [?m]))"
            using rate ident cred Some
            by (simp add: RequestPasswordReset_def CreatePasswordResetToken_def
                SendPasswordResetEmail_def split: option.splits)
          show ?thesis
          proof (cases "SendError a ?m")
            case None
            with r have "fst (RequestPasswordReset a rCtx outbox email) = None"
              and "snd (snd (RequestPasswordReset a rCtx outbox email)) = outbox @ [?m]"
              by simp_all
            moreover have "Recipient ?m = email" by simp
            ultimately show ?thesis using rate ident cred Some None by auto
          next
            case (Some e)
            with r have f: "fst (RequestPasswordReset a rCtx outbox email) = Some e"
              and o: "snd (snd (RequestPasswordReset a rCtx outbox email)) = outbox"
              by simp_all
            from f o ident show ?thesis by auto
          qed
        qed
      qed
    qed
  qed
  from unknown iff rate iderr known show ?thesis by (intro conjI)
qed

theorem RequestPasswordReset_outcome_witness:
  "RateOK testAPI (go ''nobody@example.com'') 10 = None
   \<and> GetIdentity (DBTxn selfCtx) (go ''nobody@example.com'') = Inl ErrNotFound
   \<and> RequestPasswordReset testAPI selfCtx [] (go ''nobody@example.com'')
       = (None, DBTxn selfCtx, [])
   \<and> RateOK testAPI (go ''bruce@example.com'') 10 = None
   \<and> GetIdentity (DBTxn selfCtx) (go ''bruce@example.com'') = Inr bruce
   \<and> (\<exists>c. GetCredentialByUserID (DBTxn selfCtx) (ID bruce) = Inr c)
   \<and> (\<exists>org. AuthOrganization selfCtx = Some org)
   \<and> RequestPasswordReset testAPI selfCtx [] (go ''bruce@example.com'')
       = (None, testDB\<lparr>resetTokens := [(7, ''resettoken'', 15)]\<rparr>,
          [\<lparr>Recipient = go ''bruce@example.com'',
            Link = ''https://example.com/password-reset?token=resettoken''\<rparr>])"
proof -
  have h: "RateOK testAPI (go ''nobody@example.com'') 10 = None
      \<and> GetIdentity (DBTxn selfCtx) (go ''nobody@example.com'') = Inl ErrNotFound"
    by (simp add: testAPI_def selfCtx_def testDB_def bruce_def GetIdentity_def go_def)
  have r: "RateOK testAPI (go ''bruce@example.com'') 10 = None"
    by (simp add: testAPI_def)
  have i: "GetIdentity (DBTxn selfCtx) (go ''bruce@example.com'') = Inr bruce"
    by (simp add: selfCtx_def testDB_def bruce_def GetIdentity_def go_def)
  obtain c where c: "GetCredentialByUserID (DBTxn selfCtx) (ID bruce) = Inr c"
    by (simp add: selfCtx_def testDB_def bruce_def GetCredentialByUserID_def)
  define org where "org = \<lparr>Domain = ''example.com''\<rparr>"
  have o: "AuthOrganization selfCtx = Some org" and dom: "Domain org = ''example.com''"
    by (simp_all add: selfCtx_def org_def)
  have s: "SendError testAPI m = None" for m by (simp add: testAPI_def)
  have v: "DBTxn selfCtx = testDB" "resetTokens testDB = []" "ID bruce = 7"
    "NewToken testAPI = ''resettoken''" "wrapLinkWithVerification testAPI l d' t = l" for l d' t
    by (simp_all add: selfCtx_def testDB_def bruce_def testAPI_def)
  note t = RequestPasswordReset_outcome [of testAPI "go ''nobody@example.com''" selfCtx "[]"]
  note u = RequestPasswordReset_outcome [of testAPI "go ''bruce@example.com''" selfCtx "[]"]
  from t [THEN conjunct1, THEN mp, OF h]
  have a: "RequestPasswordReset testAPI selfCtx [] (go ''nobody@example.com'')
       = (None, DBTxn selfCtx, [])" .
  from u [THEN conjunct2, THEN conjunct2, THEN conjunct2, THEN conjunct2] have k: "\<forall>user. RateOK testAPI (go ''bruce@example.com'') 10 = None
        \<and> GetIdentity (DBTxn selfCtx) (go ''bruce@example.com'') = Inr user \<longrightarrow>
         (\<forall>e. GetCredentialByUserID (DBTxn selfCtx) (ID user) = Inl e \<longrightarrow>
            e = ErrNotFound
            \<and> RequestPasswordReset testAPI selfCtx [] (go ''bruce@example.com'')
                = (Some ErrNotFound, DBTxn selfCtx, []))
         \<and> (\<forall>c. GetCredentialByUserID (DBTxn selfCtx) (ID user) = Inr c \<longrightarrow>
              (let d1 = (DBTxn selfCtx)\<lparr>resetTokens :=
                          resetTokens (DBTxn selfCtx) @ [(ID user, NewToken testAPI, 15)]\<rparr>
               in (AuthOrganization selfCtx = None \<longrightarrow>
                     RequestPasswordReset testAPI selfCtx [] (go ''bruce@example.com'')
                       = (Some (Panic ''nil pointer dereference''), d1, []))
                  \<and> (\<forall>org. AuthOrganization selfCtx = Some org \<longrightarrow>
                        (let m = \<lparr>Recipient = go ''bruce@example.com'',
                                  Link = wrapLinkWithVerification testAPI
                                    (''https://'' @ Domain org @ ''/password-reset?token=''
                                       @ NewToken testAPI)
                                    (Domain org) (VerificationToken user)\<rparr>
                         in (\<forall>e. SendError testAPI m = Some e \<longrightarrow>
                               RequestPasswordReset testAPI selfCtx [] (go ''bruce@example.com'')
                                 = (Some e, d1, []))
                            \<and> (SendError testAPI m = None \<longrightarrow>
                                 RequestPasswordReset testAPI selfCtx [] (go ''bruce@example.com'')
                                   = (None, d1, [] @ [m]))))))" .
  from k [rule_format, OF conjI [OF r i], THEN conjunct2, rule_format, OF c]
  have "RequestPasswordReset testAPI selfCtx [] (go ''bruce@example.com'')
       = (None, testDB\<lparr>resetTokens := [(7, ''resettoken'', 15)]\<rparr>,
          [\<lparr>Recipient = go ''bruce@example.com'',
            Link = ''https://example.com/password-reset?token=resettoken''\<rparr>])"
    using o dom s v by (simp add: Let_def)
  with h a r i c o show ?thesis by blast
qed

subsection \<open>Destination access long-poll\<close>

lemmas h_defs = ListDestinationAccess_def withListener_def
  listDestinationAccessWithMaxUpdateIndex_def ListenForNotify_def Release_def
  WaitForNotification_def channelsFor_def returned_def destinationAccessToAPI_def
  IsAuthorized_def HandleAuthErr_def InfraAdminRole_def InfraViewRole_def
  InfraConnectorRole_def testWorld_def connectorCtx_def alice_def bob_def Let_def

lemma listen_loop_no_Wait: "Wait c \<notin> set (snd (listen_loop w ctx ds))"
  by (induction ds) (auto split: option.splits prod.splits)

lemma ListenForNotify_no_Wait: "Wait c \<notin> set (snd (ListenForNotify w ctx ds))"
  using listen_loop_no_Wait [of c w ctx ds]
  by (auto simp: ListenForNotify_def split: option.splits prod.splits)

lemma snapshot_no_Wait: "Wait c \<notin> set (snd (listDestinationAccessWithMaxUpdateIndex w n name))"
  by (auto simp: listDestinationAccessWithMaxUpdateIndex_def Let_def
      split: option.splits sum.splits)

lemma Release_no_Wait: "Wait c \<notin> set (snd (Release w ctx))"
  by (simp add: Release_def Let_def)

text \<open>The handler once the listener is registered: the result is the one of
  \<open>withListener\<close>, and the trace ends with the deferred release.\<close>

lemma ListDestinationAccess_listening:
  assumes "LastUpdateIndex r \<noteq> 0"
    and "IsAuthorized rCtx [InfraAdminRole, InfraViewRole, InfraConnectorRole] = None"
    and "GetDestination w RequestTxn (ReqName r) = Inr dest"
    and "ListGrants w RequestTxn (ReqName r) = Inr grants"
    and "RollbackErr w RequestTxn = None"
    and "fst (ListenForNotify w RequestCtx (channelsFor w dest grants)) = None"
  shows "ListDestinationAccess w rCtx r =
     (fst (withListener w r),
      Rollback RequestTxn # snd (ListenForNotify w RequestCtx (channelsFor w dest grants))
      @ snd (withListener w r) @ snd (Release w (WithTimeout Background Minute))
      @ (case fst (Release w (WithTimeout Background Minute)) of
           Some _ \<Rightarrow> [LogError ''failed to release listener conn'']
         | None \<Rightarrow> []))"
  using assms
  by (auto simp: ListDestinationAccess_def Let_def split: prod.splits)

lemma withListener_new:
  assumes "fst (listDestinationAccessWithMaxUpdateIndex w 0 (ReqName r)) = Inr res"
    and "Index res > LastUpdateIndex r"
  shows "withListener w r =
     ((Some res, None), snd (listDestinationAccessWithMaxUpdateIndex w 0 (ReqName r)))"
  using assms by (auto simp: withListener_def split: prod.splits)

lemma withListener_wait:
  assumes "fst (listDestinationAccessWithMaxUpdateIndex w 0 (ReqName r)) = Inr res"
    and "\<not> Index res > LastUpdateIndex r"
  shows "withListener w r =
     (case WaitErr w of
        Some e \<Rightarrow>
          ((Some res,
            Some (if errorsIs e ErrDeadlineExceeded then ErrNotModified
                  else Wrap ''waiting for notify'' e)),
           snd (listDestinationAccessWithMaxUpdateIndex w 0 (ReqName r)) @ [Wait RequestCtx])
      | None \<Rightarrow>
          (returned (fst (listDestinationAccessWithMaxUpdateIndex w 1 (ReqName r))),
           snd (listDestinationAccessWithMaxUpdateIndex w 0 (ReqName r)) @ [Wait RequestCtx]
           @ snd (listDestinationAccessWithMaxUpdateIndex w 1 (ReqName r))))"
  using assms
  by (auto simp: withListener_def WaitForNotification_def split: prod.splits option.splits)

text \<open>
  C1 (as stated). With \<open>lastUpdateIndex = 0\<close> the response is claimed to carry the
  server's current maximum update index. In scenario 4 of the specification, with the
  maximum update index of the destination at 5, the response holds the snapshot and the
  index 0.
\<close>

theorem ListDestinationAccess_index_zero_has_no_max_index:
  "fst (ListDestinationAccess testWorld connectorCtx \<lparr>ReqName = ''cluster'', LastUpdateIndex = 0\<rparr>)
     = (Some \<lparr>Items = [\<lparr>UserID = 11, UserSSHLoginName = ''alice'', Privilege = ''view'',
                         Resource = ''cluster''\<rparr>], Index = 0\<rparr>, None)
   \<and> DestinationAccessMaxUpdateIndex testWorld RequestTxn ''cluster'' = Inr 5"
  by (simp add: h_defs)

text \<open>
  C1 (amended). With \<open>lastUpdateIndex = 0\<close> the handler acquires no listener, never
  waits and touches neither connection nor transaction (its trace is empty); for an
  authorized caller whose read of the access list succeeds it returns, with no error,
  every item of the list read in the request's transaction, field by field and in order,
  and leaves the update index of the response at zero. A caller that is not authorized
  gets an error and no response.
\<close>

theorem ListDestinationAccess_index_zero:
  assumes "LastUpdateIndex r = 0"
  shows "snd (ListDestinationAccess w rCtx r) = []
   \<and> (\<forall>result. IsAuthorized rCtx [InfraAdminRole, InfraViewRole, InfraConnectorRole] = None
         \<and> data_ListDestinationAccess w RequestTxn (ReqName r) = Inr result \<longrightarrow>
        (\<exists>resp. fst (ListDestinationAccess w rCtx r) = (Some resp, None)
           \<and> Index resp = 0
           \<and> length (Items resp) = length result
           \<and> map UserID (Items resp) = map data_UserID result
           \<and> map UserSSHLoginName (Items resp) = map data_UserSSHLoginName result
           \<and> map Privilege (Items resp) = map data_Privilege result
           \<and> map Resource (Items resp) = map data_Resource result))
   \<and> (IsAuthorized rCtx [InfraAdminRole, InfraViewRole, InfraConnectorRole] \<noteq> None \<longrightarrow>
        fst (fst (ListDestinationAccess w rCtx r)) = None
        \<and> snd (fst (ListDestinationAccess w rCtx r)) \<noteq> None)"
  using assms
  by (auto simp: ListDestinationAccess_def Let_def destinationAccessToAPI_def comp_def
      split: option.splits sum.splits)

theorem ListDestinationAccess_index_zero_witness:
  "LastUpdateIndex \<lparr>ReqName = ''cluster'', LastUpdateIndex = 0\<rparr> = 0
   \<and> IsAuthorized connectorCtx [InfraAdminRole, InfraViewRole, InfraConnectorRole] = None
   \<and> data_ListDestinationAccess testWorld RequestTxn ''cluster'' = Inr [alice]
   \<and> snd (ListDestinationAccess testWorld connectorCtx
             \<lparr>ReqName = ''cluster'', LastUpdateIndex = 0\<rparr>) = []
   \<and> (\<exists>resp. fst (ListDestinationAccess testWorld connectorCtx
                    \<lparr>ReqName = ''cluster'', LastUpdateIndex = 0\<rparr>) = (Some resp, None)
          \<and> Index resp = 0 \<and> map UserID (Items resp) = [11]
          \<and> map Privilege (Items resp) = [''view''])"
proof -
  let ?r = "\<lparr>ReqName = ''cluster'', LastUpdateIndex = 0\<rparr>"
  have z: "LastUpdateIndex ?r = 0" by simp
  have a: "IsAuthorized connectorCtx [InfraAdminRole, InfraViewRole, InfraConnectorRole] = None"
    by (simp add: h_defs)
  have d: "data_ListDestinationAccess testWorld RequestTxn (ReqName ?r) = Inr [alice]"
    by (simp add: testWorld_def)
  have f: "map data_UserID [alice] = [11]" "map data_Privilege [alice] = [''view'']"
    by (simp_all add: alice_def)
  from ListDestinationAccess_index_zero [OF z, of testWorld connectorCtx] a d f z
  show ?thesis by fastforce
qed

lemma listen_loop_no_Begin: "Begin c n \<notin> set (snd (listen_loop w ctx ds))"
  by (induction ds) (auto split: option.splits prod.splits)

lemma ListenForNotify_no_Begin: "Begin c n \<notin> set (snd (ListenForNotify w ctx ds))"
  using listen_loop_no_Begin [of c n w ctx ds]
  by (auto simp: ListenForNotify_def split: option.splits prod.splits)

lemma Release_no_Begin: "Begin c n \<notin> set (snd (Release w ctx))"
  by (simp add: Release_def Let_def)

lemma snapshot_trace:
  "\<exists>rest. snd (listDestinationAccessWithMaxUpdateIndex w n name) = Begin RequestCtx n # rest
      \<and> (\<forall>c m. Begin c m \<notin> set rest)"
  by (auto simp: listDestinationAccessWithMaxUpdateIndex_def Let_def
      split: option.splits sum.splits)

lemma snapshot_ok:
  assumes "BeginErr w n = None"
    and "data_ListDestinationAccess w (ReadTx n) name = Inr items"
    and "DestinationAccessMaxUpdateIndex w (ReadTx n) name = Inr maxIndex"
  shows "fst (listDestinationAccessWithMaxUpdateIndex w n name)
     = Inr \<lparr>Items = destinationAccessToAPI items, Index = maxIndex\<rparr>"
  using assms by (simp add: listDestinationAccessWithMaxUpdateIndex_def Let_def)

lemma snapshot_result:
  "returned (fst (listDestinationAccessWithMaxUpdateIndex w n name)) =
     (case BeginErr w n of
        Some e \<Rightarrow> (None, Some e)
      | None \<Rightarrow>
          (case data_ListDestinationAccess w (ReadTx n) name of
             Inl e \<Rightarrow> (None, Some e)
           | Inr items \<Rightarrow>
               (case DestinationAccessMaxUpdateIndex w (ReadTx n) name of
                  Inl e \<Rightarrow> (None, Some e)
                | Inr maxIndex \<Rightarrow>
                    (Some \<lparr>Items = destinationAccessToAPI items, Index = maxIndex\<rparr>, None))))"
  by (simp add: listDestinationAccessWithMaxUpdateIndex_def returned_def Let_def
      split: option.splits sum.splits)

lemma destinationAccessToAPI_fields:
  "length (destinationAccessToAPI xs) = length xs
   \<and> map UserID (destinationAccessToAPI xs) = map data_UserID xs
   \<and> map UserSSHLoginName (destinationAccessToAPI xs) = map data_UserSSHLoginName xs
   \<and> map Privilege (destinationAccessToAPI xs) = map data_Privilege xs
   \<and> map Resource (destinationAccessToAPI xs) = map data_Resource xs"
  by (simp add: destinationAccessToAPI_def comp_def)

text \<open>The trace of a blocking call that waits, around its one wait.\<close>

lemma ListDestinationAccess_wait_trace:
  assumes "LastUpdateIndex r \<noteq> 0"
    and "IsAuthorized rCtx [InfraAdminRole, InfraViewRole, InfraConnectorRole] = None"
    and "GetDestination w RequestTxn (ReqName r) = Inr dest"
    and "ListGrants w RequestTxn (ReqName r) = Inr grants"
    and "RollbackErr w RequestTxn = None"
    and "fst (ListenForNotify w RequestCtx (channelsFor w dest grants)) = None"
    and "fst (listDestinationAccessWithMaxUpdateIndex w 0 (ReqName r)) = Inr res"
    and "\<not> Index res > LastUpdateIndex r"
  shows "\<exists>before after. snd (ListDestinationAccess w rCtx r) = before @ Wait RequestCtx # after
      \<and> Begin RequestCtx 0 \<in> set before
      \<and> (\<forall>c. Wait c \<notin> set before \<and> Wait c \<notin> set after)
      \<and> (\<forall>c n. Begin c n \<in> set before \<longrightarrow> n = 0)
      \<and> (WaitErr w \<noteq> None \<longrightarrow> (\<forall>c n. Begin c n \<notin> set after))
      \<and> (WaitErr w = None \<longrightarrow>
            (\<exists>rest. after = Begin RequestCtx 1 # rest \<and> (\<forall>c n. Begin c n \<notin> set rest)))"
proof -
  let ?L = "snd (ListenForNotify w RequestCtx (channelsFor w dest grants))"
  let ?R = "snd (Release w (WithTimeout Background Minute))
      @ (case fst (Release w (WithTimeout Background Minute)) of
           Some _ \<Rightarrow> [LogError ''failed to release listener conn'']
         | None \<Rightarrow> [])"
  let ?S0 = "snd (listDestinationAccessWithMaxUpdateIndex w 0 (ReqName r))"
  let ?S1 = "snd (listDestinationAccessWithMaxUpdateIndex w 1 (ReqName r))"
  note l = ListDestinationAccess_listening [OF assms(1-6)]
  note wl = withListener_wait [OF assms(7,8)]
  obtain rest0 where s0: "?S0 = Begin RequestCtx 0 # rest0" and r0: "\<forall>c m. Begin c m \<notin> set rest0"
    using snapshot_trace [of w 0 "ReqName r"] by blast
  obtain rest1 where s1: "?S1 = Begin RequestCtx 1 # rest1" and r1: "\<forall>c m. Begin c m \<notin> set rest1"
    using snapshot_trace [of w 1 "ReqName r"] by blast
  have w0: "Wait c \<notin> set ?S0" and w1: "Wait c \<notin> set ?S1" for c
    by (rule snapshot_no_Wait)+
  have rw: "Wait c \<notin> set ?R" for c
    using Release_no_Wait [of c w "WithTimeout Background Minute"]
    by (simp split: option.splits)
  have rb: "Begin c n \<notin> set ?R" for c n
    using Release_no_Begin [of c n w "WithTimeout Background Minute"]
    by (simp split: option.splits)
  have lw: "Wait c \<notin> set ?L" for c by (rule ListenForNotify_no_Wait)
  have lb: "Begin c n \<notin> set ?L" for c n by (rule ListenForNotify_no_Begin)
  let ?before = "Rollback RequestTxn # ?L @ ?S0"
  have bb: "Begin RequestCtx 0 \<in> set ?before" by (simp add: s0)
  have bw: "Wait c \<notin> set ?before" for c using lw [of c] w0 [of c] by simp
  have b0: "Begin c n \<in> set ?before \<longrightarrow> n = 0" for c n
    using lb [of c n] r0 by (auto simp: s0)
  show ?thesis
  proof (cases "WaitErr w")
    case (Some e)
    with l wl have t: "snd (ListDestinationAccess w rCtx r) = ?before @ Wait RequestCtx # ?R"
      by simp
    have p3: "\<forall>c. Wait c \<notin> set ?before \<and> Wait c \<notin> set ?R"
      using bw rw by (intro allI conjI)
    have p4: "\<forall>c n. Begin c n \<in> set ?before \<longrightarrow> n = 0"
      using b0 by (intro allI)
    have p5: "WaitErr w \<noteq> None \<longrightarrow> (\<forall>c n. Begin c n \<notin> set ?R)"
      using rb by (intro impI allI)
    have p6: "WaitErr w = None \<longrightarrow>
            (\<exists>rest. ?R = Begin RequestCtx 1 # rest \<and> (\<forall>c n. Begin c n \<notin> set rest))"
      using Some by simp
    show ?thesis
      by (intro exI conjI) (rule t bb p3 p4 p5 p6)+
  next
    case None
    with l wl have t: "snd (ListDestinationAccess w rCtx r)
        = ?before @ Wait RequestCtx # (?S1 @ ?R)"
      by simp
    have aw: "Wait c \<notin> set (?S1 @ ?R)" for c using w1 [of c] rw [of c] by simp
    have ar: "?S1 @ ?R = Begin RequestCtx 1 # (rest1 @ ?R)" unfolding s1 by simp
    have ab: "Begin c n \<notin> set (rest1 @ ?R)" for c n using r1 rb [of c n] by simp
    have p3: "\<forall>c. Wait c \<notin> set ?before \<and> Wait c \<notin> set (?S1 @ ?R)"
      using bw aw by (intro allI conjI)
    have p4: "\<forall>c n. Begin c n \<in> set ?before \<longrightarrow> n = 0"
      using b0 by (intro allI)
    have p5: "WaitErr w \<noteq> None \<longrightarrow> (\<forall>c n. Begin c n \<notin> set (?S1 @ ?R))"
      using None by simp
    have "\<forall>c n. Begin c n \<notin> set (rest1 @ ?R)"
      using ab by (intro allI)
    with ar have "\<exists>rest. ?S1 @ ?R = Begin RequestCtx 1 # rest
        \<and> (\<forall>c n. Begin c n \<notin> set rest)"
      by (intro exI [where x = "rest1 @ ?R"] conjI)
    then have p6: "WaitErr w = None \<longrightarrow>
            (\<exists>rest. ?S1 @ ?R = Begin RequestCtx 1 # rest
                \<and> (\<forall>c n. Begin c n \<notin> set rest))"
      by (rule impI)
    show ?thesis
      by (intro exI conjI) (rule t bb p3 p4 p5 p6)+
  qed
qed

lemma ListDestinationAccess_new_trace:
  assumes "LastUpdateIndex r \<noteq> 0"
    and "IsAuthorized rCtx [InfraAdminRole, InfraViewRole, InfraConnectorRole] = None"
    and "GetDestination w RequestTxn (ReqName r) = Inr dest"
    and "ListGrants w RequestTxn (ReqName r) = Inr grants"
    and "RollbackErr w RequestTxn = None"
    and "fst (ListenForNotify w RequestCtx (channelsFor w dest grants)) = None"
    and "fst (listDestinationAccessWithMaxUpdateIndex w 0 (ReqName r)) = Inr res"
    and "Index res > LastUpdateIndex r"
  shows "fst (ListDestinationAccess w rCtx r) = (Some res, None)
      \<and> (\<forall>c. Wait c \<notin> set (snd (ListDestinationAccess w rCtx r)))
      \<and> (\<forall>c n. Begin c n \<in> set (snd (ListDestinationAccess w rCtx r)) \<longrightarrow> n = 0)"
proof -
  note l = ListDestinationAccess_listening [OF assms(1-6)]
  note wl = withListener_new [OF assms(7,8)]
  obtain rest0 where s0: "snd (listDestinationAccessWithMaxUpdateIndex w 0 (ReqName r))
       = Begin RequestCtx 0 # rest0" and r0: "\<forall>c m. Begin c m \<notin> set rest0"
    using snapshot_trace [of w 0 "ReqName r"] by blast
  have w0: "Wait c \<notin> set (snd (listDestinationAccessWithMaxUpdateIndex w 0 (ReqName r)))" for c
    by (rule snapshot_no_Wait)
  have "Wait c \<notin> set (snd (ListDestinationAccess w rCtx r))" for c
    using ListenForNotify_no_Wait [of c w RequestCtx "channelsFor w dest grants"]
      Release_no_Wait [of c w "WithTimeout Background Minute"] w0 [of c]
    by (simp add: l wl split: option.splits)
  moreover have "Begin c n \<in> set (snd (ListDestinationAccess w rCtx r)) \<longrightarrow> n = 0" for c n
    using ListenForNotify_no_Begin [of c n w RequestCtx "channelsFor w dest grants"]
      Release_no_Begin [of c n w "WithTimeout Background Minute"] r0
    by (auto simp: l wl s0 split: option.splits)
  moreover have "fst (ListDestinationAccess w rCtx r) = (Some res, None)"
    by (simp add: l wl)
  ultimately show ?thesis by blast
qed

lemma ListDestinationAccess_wait_result:
  assumes "LastUpdateIndex r \<noteq> 0"
    and "IsAuthorized rCtx [InfraAdminRole, InfraViewRole, InfraConnectorRole] = None"
    and "GetDestination w RequestTxn (ReqName r) = Inr dest"
    and "ListGrants w RequestTxn (ReqName r) = Inr grants"
    and "RollbackErr w RequestTxn = None"
    and "fst (ListenForNotify w RequestCtx (channelsFor w dest grants)) = None"
    and "fst (listDestinationAccessWithMaxUpdateIndex w 0 (ReqName r)) = Inr res"
    and "\<not> Index res > LastUpdateIndex r"
  shows "fst (ListDestinationAccess w rCtx r) =
     (case WaitErr w of
        Some e \<Rightarrow> (Some res, Some (if errorsIs e ErrDeadlineExceeded then ErrNotModified
                                    else Wrap ''waiting for notify'' e))
      | None \<Rightarrow> returned (fst (listDestinationAccessWithMaxUpdateIndex w 1 (ReqName r))))"
  using ListDestinationAccess_listening [OF assms(1-6)] withListener_wait [OF assms(7,8)]
  by (simp split: option.splits)

text \<open>
  C2. A call with \<open>lastUpdateIndex > 0\<close> by an authorized caller, for which the
  destination and its grants are read, the request's transaction is rolled back and the
  listener is registered, and whose first read, in the first read transaction, gives the
  access list \<open>items\<close> and the maximum update index \<open>maxIndex\<close>. The snapshot \<open>res\<close> holds
  the items of the list, field by field and in order, and \<open>maxIndex\<close>.
  If \<open>maxIndex\<close> exceeds the client's index, \<open>res\<close> is returned with no error, without
  waiting and without a second read. Otherwise the handler waits once for a notification
  on the request's context, after the first read and before any second read. When the
  wait ends with the context's deadline, the unchanged \<open>res\<close> is returned together with
  the not-modified sentinel, which is answered with status 304, and nothing is read
  again; another error of the wait is returned wrapped, with \<open>res\<close>. When a notification
  arrives, the handler opens a second read transaction after the wait and returns what
  is read there: the items of the access list and the maximum update index of that read,
  or the error of that read and no snapshot.
\<close>

theorem ListDestinationAccess_blocking:
  assumes "LastUpdateIndex r > 0"
    and "IsAuthorized rCtx [InfraAdminRole, InfraViewRole, InfraConnectorRole] = None"
    and "GetDestination w RequestTxn (ReqName r) = Inr dest"
    and "ListGrants w RequestTxn (ReqName r) = Inr grants"
    and "RollbackErr w RequestTxn = None"
    and "fst (ListenForNotify w RequestCtx (channelsFor w dest grants)) = None"
    and "BeginErr w 0 = None"
    and "data_ListDestinationAccess w (ReadTx 0) (ReqName r) = Inr items"
    and "DestinationAccessMaxUpdateIndex w (ReadTx 0) (ReqName r) = Inr maxIndex"
  shows "(\<forall>xs. length (destinationAccessToAPI xs) = length xs
            \<and> map UserID (destinationAccessToAPI xs) = map data_UserID xs
            \<and> map UserSSHLoginName (destinationAccessToAPI xs) = map data_UserSSHLoginName xs
            \<and> map Privilege (destinationAccessToAPI xs) = map data_Privilege xs
            \<and> map Resource (destinationAccessToAPI xs) = map data_Resource xs)
   \<and> (let res = \<lparr>Items = destinationAccessToAPI items, Index = maxIndex\<rparr>;
           result = fst (ListDestinationAccess w rCtx r);
           trace = snd (ListDestinationAccess w rCtx r)
       in (maxIndex > LastUpdateIndex r \<longrightarrow>
             result = (Some res, None)
             \<and> (\<forall>c. Wait c \<notin> set trace)
             \<and> (\<forall>c n. Begin c n \<in> set trace \<longrightarrow> n = 0))
          \<and> (maxIndex \<le> LastUpdateIndex r \<longrightarrow>
               (\<exists>before after. trace = before @ Wait RequestCtx # after
                   \<and> Begin RequestCtx 0 \<in> set before
                   \<and> (\<forall>c. Wait c \<notin> set before \<and> Wait c \<notin> set after)
                   \<and> (\<forall>c n. Begin c n \<in> set before \<longrightarrow> n = 0)
                   \<and> (WaitErr w \<noteq> None \<longrightarrow> (\<forall>c n. Begin c n \<notin> set after))
                   \<and> (WaitErr w = None \<longrightarrow>
                         (\<exists>rest. after = Begin RequestCtx 1 # rest
                             \<and> (\<forall>c n. Begin c n \<notin> set rest))))
               \<and> (\<forall>e. WaitErr w = Some e \<longrightarrow>
                     (errorsIs e ErrDeadlineExceeded \<longrightarrow>
                        result = (Some res, Some ErrNotModified)
                        \<and> map_option statusCode (snd result) = Some 304)
                     \<and> (\<not> errorsIs e ErrDeadlineExceeded \<longrightarrow>
                          result = (Some res, Some (Wrap ''waiting for notify'' e))))
               \<and> (WaitErr w = None \<longrightarrow>
                     (\<forall>e. BeginErr w 1 = Some e \<longrightarrow> result = (None, Some e))
                     \<and> (BeginErr w 1 = None \<longrightarrow>
                          (\<forall>e. data_ListDestinationAccess w (ReadTx 1) (ReqName r) = Inl e \<longrightarrow>
                             result = (None, Some e))
                          \<and> (\<forall>items'. data_ListDestinationAccess w (ReadTx 1) (ReqName r)
                                        = Inr items' \<longrightarrow>
                               (\<forall>e. DestinationAccessMaxUpdateIndex w (ReadTx 1) (ReqName r)
                                        = Inl e \<longrightarrow> result = (None, Some e))
                               \<and> (\<forall>maxIndex'. DestinationAccessMaxUpdateIndex w (ReadTx 1)
                                                (ReqName r) = Inr maxIndex' \<longrightarrow>
                                    result = (Some \<lparr>Items = destinationAccessToAPI items',
                                                     Index = maxIndex'\<rparr>, None)))))))"
  (is "?fields \<and> ?handler")
proof -
  let ?res = "\<lparr>Items = destinationAccessToAPI items, Index = maxIndex\<rparr>"
  from assms(1) have nz: "LastUpdateIndex r \<noteq> 0" by simp
  have first: "fst (listDestinationAccessWithMaxUpdateIndex w 0 (ReqName r)) = Inr ?res"
    using assms(7-9) by (rule snapshot_ok)
  have fields: ?fields
    by (intro allI) (rule destinationAccessToAPI_fields)
  have handler: ?handler
  proof (cases "maxIndex > LastUpdateIndex r")
    case True
    then have "Index ?res > LastUpdateIndex r" by simp
    from ListDestinationAccess_new_trace [OF nz assms(2-6) first this] True
    show ?thesis unfolding Let_def by simp
  next
    case False
    then have le: "\<not> Index ?res > LastUpdateIndex r" by simp
    note tr = ListDestinationAccess_wait_trace [OF nz assms(2-6) first le]
    note rs = ListDestinationAccess_wait_result [OF nz assms(2-6) first le]
    have dl: "fst (ListDestinationAccess w rCtx r) = (Some ?res, Some ErrNotModified)
        \<and> map_option statusCode (snd (fst (ListDestinationAccess w rCtx r))) = Some 304"
      if "WaitErr w = Some e" "errorsIs e ErrDeadlineExceeded" for e
      using rs that by simp
    have ot: "fst (ListDestinationAccess w rCtx r)
         = (Some ?res, Some (Wrap ''waiting for notify'' e))"
      if "WaitErr w = Some e" "\<not> errorsIs e ErrDeadlineExceeded" for e
      using rs that by simp
    have nt: "fst (ListDestinationAccess w rCtx r) =
       (case BeginErr w 1 of
        Some e \<Rightarrow> (None, Some e)
      | None \<Rightarrow>
          (case data_ListDestinationAccess w (ReadTx 1) (ReqName r) of
             Inl e \<Rightarrow> (None, Some e)
           | Inr items \<Rightarrow>
               (case DestinationAccessMaxUpdateIndex w (ReadTx 1) (ReqName r) of
                  Inl e \<Rightarrow> (None, Some e)
                | Inr maxIndex \<Rightarrow>
                    (Some \<lparr>Items = destinationAccessToAPI items, Index = maxIndex\<rparr>, None))))"
      if "WaitErr w = None"
      using rs unfolding that option.case snapshot_result .
    have n1: "fst (ListDestinationAccess w rCtx r) = (None, Some e)"
      if "WaitErr w = None" "BeginErr w 1 = Some e" for e
      using nt [OF that(1)] that(2) by simp
    have n2: "fst (ListDestinationAccess w rCtx r) = (None, Some e)"
      if "WaitErr w = None" "BeginErr w 1 = None"
        "data_ListDestinationAccess w (ReadTx 1) (ReqName r) = Inl e" for e
      using nt [OF that(1)] that(2,3) by simp
    have n3: "fst (ListDestinationAccess w rCtx r) = (None, Some e)"
      if "WaitErr w = None" "BeginErr w 1 = None"
        "data_ListDestinationAccess w (ReadTx 1) (ReqName r) = Inr items'"
        "DestinationAccessMaxUpdateIndex w (ReadTx 1) (ReqName r) = Inl e" for e items'
      using nt [OF that(1)] that(2,3,4) by simp
    have n4: "fst (ListDestinationAccess w rCtx r)
         = (Some \<lparr>Items = destinationAccessToAPI items', Index = maxIndex'\<rparr>, None)"
      if "WaitErr w = None" "BeginErr w 1 = None"
        "data_ListDestinationAccess w (ReadTx 1) (ReqName r) = Inr items'"
        "DestinationAccessMaxUpdateIndex w (ReadTx 1) (ReqName r) = Inr maxIndex'"
      for items' maxIndex'
      using nt [OF that(1)] that(2,3,4) by simp
    from False have f: "\<not> maxIndex > LastUpdateIndex r" .
    show ?thesis
      unfolding Let_def
      apply (intro conjI impI allI)
      using f apply simp
      using f apply simp
      using f apply simp
      apply (rule tr)
      apply (erule (1) dl [THEN conjunct1])
      apply (erule (1) dl [THEN conjunct2])
      apply (erule (1) ot)
      apply (erule (1) n1)
      apply (erule (2) n2)
      apply (erule (3) n3)
      apply (erule (3) n4)
      done
  qed
  from fields handler show ?thesis by (rule conjI)
qed

theorem ListDestinationAccess_blocking_witness:
  "LastUpdateIndex \<lparr>ReqName = ''cluster'', LastUpdateIndex = 5\<rparr> > 0
   \<and> IsAuthorized connectorCtx [InfraAdminRole, InfraViewRole, InfraConnectorRole] = None
   \<and> data_ListDestinationAccess testWorld (ReadTx 0) ''cluster'' = Inr [alice]
   \<and> DestinationAccessMaxUpdateIndex testWorld (ReadTx 0) ''cluster'' = Inr 5
   \<and> data_ListDestinationAccess testWorld (ReadTx 1) ''cluster'' = Inr [alice, bob]
   \<and> DestinationAccessMaxUpdateIndex testWorld (ReadTx 1) ''cluster'' = Inr 6
   \<and> fst (ListDestinationAccess testWorld connectorCtx \<lparr>ReqName = ''cluster'', LastUpdateIndex = 4\<rparr>)
       = (Some \<lparr>Items = destinationAccessToAPI [alice], Index = 5\<rparr>, None)
   \<and> Wait RequestCtx \<notin> set (snd (ListDestinationAccess testWorld connectorCtx
                                     \<lparr>ReqName = ''cluster'', LastUpdateIndex = 4\<rparr>))
   \<and> fst (ListDestinationAccess testWorld connectorCtx \<lparr>ReqName = ''cluster'', LastUpdateIndex = 5\<rparr>)
       = (Some \<lparr>Items = destinationAccessToAPI [alice, bob], Index = 6\<rparr>, None)
   \<and> (\<exists>before rest.
         snd (ListDestinationAccess testWorld connectorCtx
                \<lparr>ReqName = ''cluster'', LastUpdateIndex = 5\<rparr>)
           = before @ Wait RequestCtx # Begin RequestCtx 1 # rest
         \<and> Begin RequestCtx 0 \<in> set before)
   \<and> fst (ListDestinationAccess (testWorld\<lparr>WaitErr := Some ErrDeadlineExceeded\<rparr>) connectorCtx
            \<lparr>ReqName = ''cluster'', LastUpdateIndex = 5\<rparr>)
       = (Some \<lparr>Items = destinationAccessToAPI [alice], Index = 5\<rparr>, Some ErrNotModified)
   \<and> map_option statusCode
         (snd (fst (ListDestinationAccess (testWorld\<lparr>WaitErr := Some ErrDeadlineExceeded\<rparr>)
                      connectorCtx \<lparr>ReqName = ''cluster'', LastUpdateIndex = 5\<rparr>))) = Some 304
   \<and> map UserID (destinationAccessToAPI [alice, bob]) = [11, 12]
   \<and> map Privilege (destinationAccessToAPI [alice, bob]) = [''view'', ''admin'']"
proof -
  let ?d = "\<lparr>DestinationID = 2, DestinationName = ''cluster''\<rparr>"
  let ?g = "[\<lparr>GrantSubject = \<lparr>SubjectKindOf = SubjectKindGroup, SubjectID = 3\<rparr>,
              GrantPrivilege = ''view'', GrantResource = ''cluster''\<rparr>]"
  let ?w = "testWorld\<lparr>WaitErr := Some ErrDeadlineExceeded\<rparr>"
  let ?r4 = "\<lparr>ReqName = ''cluster'', LastUpdateIndex = 4\<rparr>"
  let ?r5 = "\<lparr>ReqName = ''cluster'', LastUpdateIndex = 5\<rparr>"
  have p4: "LastUpdateIndex ?r4 > 0" and p5: "LastUpdateIndex ?r5 > 0" by simp_all
  have gt: "(5::int) > LastUpdateIndex ?r4" and le: "(5::int) \<le> LastUpdateIndex ?r5" by simp_all
  have a: "IsAuthorized connectorCtx [InfraAdminRole, InfraViewRole, InfraConnectorRole] = None"
    by (simp add: IsAuthorized_def connectorCtx_def)
  have w4: "GetDestination testWorld RequestTxn (ReqName ?r4) = Inr ?d"
    "ListGrants testWorld RequestTxn (ReqName ?r4) = Inr ?g"
    "RollbackErr testWorld RequestTxn = None"
    "fst (ListenForNotify testWorld RequestCtx (channelsFor testWorld ?d ?g)) = None"
    "BeginErr testWorld 0 = None"
    "data_ListDestinationAccess testWorld (ReadTx 0) (ReqName ?r4) = Inr [alice]"
    "DestinationAccessMaxUpdateIndex testWorld (ReadTx 0) (ReqName ?r4) = Inr 5"
    by (simp_all add: testWorld_def ListenForNotify_def channelsFor_def)
  have w5: "GetDestination testWorld RequestTxn (ReqName ?r5) = Inr ?d"
    "ListGrants testWorld RequestTxn (ReqName ?r5) = Inr ?g"
    "RollbackErr testWorld RequestTxn = None"
    "fst (ListenForNotify testWorld RequestCtx (channelsFor testWorld ?d ?g)) = None"
    "BeginErr testWorld 0 = None"
    "data_ListDestinationAccess testWorld (ReadTx 0) (ReqName ?r5) = Inr [alice]"
    "DestinationAccessMaxUpdateIndex testWorld (ReadTx 0) (ReqName ?r5) = Inr 5"
    by (simp_all add: testWorld_def ListenForNotify_def channelsFor_def)
  have n5: "WaitErr testWorld = None" "BeginErr testWorld 1 = None"
    "data_ListDestinationAccess testWorld (ReadTx 1) (ReqName ?r5) = Inr [alice, bob]"
    "DestinationAccessMaxUpdateIndex testWorld (ReadTx 1) (ReqName ?r5) = Inr 6"
    by (simp_all add: testWorld_def)
  have wd: "GetDestination ?w RequestTxn (ReqName ?r5) = Inr ?d"
    "ListGrants ?w RequestTxn (ReqName ?r5) = Inr ?g"
    "RollbackErr ?w RequestTxn = None"
    "fst (ListenForNotify ?w RequestCtx (channelsFor ?w ?d ?g)) = None"
    "BeginErr ?w 0 = None"
    "data_ListDestinationAccess ?w (ReadTx 0) (ReqName ?r5) = Inr [alice]"
    "DestinationAccessMaxUpdateIndex ?w (ReadTx 0) (ReqName ?r5) = Inr 5"
    by (simp_all add: testWorld_def ListenForNotify_def channelsFor_def)
  have dl: "WaitErr ?w = Some ErrDeadlineExceeded" "errorsIs ErrDeadlineExceeded ErrDeadlineExceeded"
    by simp_all
  note t4 = ListDestinationAccess_blocking [OF p4 a w4, unfolded Let_def,
      THEN conjunct2, THEN conjunct1, THEN mp, OF gt]
  note t5 = ListDestinationAccess_blocking [OF p5 a w5, unfolded Let_def,
      THEN conjunct2, THEN conjunct2, THEN mp, OF le]
  note td = ListDestinationAccess_blocking [OF p5 a wd, unfolded Let_def,
      THEN conjunct2, THEN conjunct2, THEN mp, OF le]
  note fl = ListDestinationAccess_blocking [OF p5 a w5, THEN conjunct1, THEN spec,
      where x = "[alice, bob]"]
  have c1: "fst (ListDestinationAccess testWorld connectorCtx ?r4)
       = (Some \<lparr>Items = destinationAccessToAPI [alice], Index = 5\<rparr>, None)"
    by (rule t4 [THEN conjunct1])
  have c2: "Wait RequestCtx \<notin> set (snd (ListDestinationAccess testWorld connectorCtx ?r4))"
    by (rule t4 [THEN conjunct2, THEN conjunct1, THEN spec])
  have c3: "fst (ListDestinationAccess testWorld connectorCtx ?r5)
       = (Some \<lparr>Items = destinationAccessToAPI [alice, bob], Index = 6\<rparr>, None)"
    by (rule t5 [THEN conjunct2, THEN conjunct2, THEN mp, OF n5(1), THEN conjunct2,
          THEN mp, OF n5(2), THEN conjunct2, THEN spec, THEN mp, OF n5(3), THEN conjunct2,
          THEN spec, THEN mp, OF n5(4)])
  from t5 [THEN conjunct1] obtain before after where
    tr: "snd (ListDestinationAccess testWorld connectorCtx ?r5) = before @ Wait RequestCtx # after"
    and b0: "Begin RequestCtx 0 \<in> set before"
    and af: "WaitErr testWorld = None \<longrightarrow>
               (\<exists>rest. after = Begin RequestCtx 1 # rest \<and> (\<forall>c n. Begin c n \<notin> set rest))"
    by (elim exE conjE)
  from af n5(1) obtain rest where "after = Begin RequestCtx 1 # rest" by (elim impE exE conjE)
  with tr b0 have c4: "\<exists>before rest.
         snd (ListDestinationAccess testWorld connectorCtx ?r5)
           = before @ Wait RequestCtx # Begin RequestCtx 1 # rest
         \<and> Begin RequestCtx 0 \<in> set before"
    by (intro exI [where x = before] exI [where x = rest]) simp
  note e = td [THEN conjunct2, THEN conjunct1, THEN spec, THEN mp, OF dl(1), THEN conjunct1,
      THEN mp, OF dl(2)]
  have c5: "fst (ListDestinationAccess ?w connectorCtx ?r5)
       = (Some \<lparr>Items = destinationAccessToAPI [alice], Index = 5\<rparr>, Some ErrNotModified)"
    by (rule e [THEN conjunct1])
  have c6: "map_option statusCode (snd (fst (ListDestinationAccess ?w connectorCtx ?r5)))
       = Some 304"
    by (rule e [THEN conjunct2])
  have c7: "map UserID (destinationAccessToAPI [alice, bob]) = [11, 12]"
    "map Privilege (destinationAccessToAPI [alice, bob]) = [''view'', ''admin'']"
    using fl by (simp_all add: alice_def bob_def)
  have r: "ReqName ?r5 = ''cluster''" by simp
  from p5 a w5(6,7) n5(3,4) c1 c2 c3 c4 c5 c6 c7 show ?thesis
    unfolding r by (intro conjI)
qed

text \<open>The result of the handler does not depend on what the release of the listener
  reports.\<close>

lemma listen_loop_release_indep:
  "fst (listen_loop (w\<lparr>UnlistenErr := u, ReleaseConnErr := c\<rparr>) ctx ds) = fst (listen_loop w ctx ds)"
proof (induction ds)
  case Nil
  show ?case by simp
next
  case (Cons d ds)
  have ch: "Channel (w\<lparr>UnlistenErr := u, ReleaseConnErr := c\<rparr>) d = Channel w d"
    by (cases d) simp_all
  from Cons ch show ?case
    by (auto split: option.splits prod.splits)
qed

lemma ListenForNotify_release_indep:
  "fst (ListenForNotify (w\<lparr>UnlistenErr := u, ReleaseConnErr := c\<rparr>) ctx ds)
     = fst (ListenForNotify w ctx ds)"
  using listen_loop_release_indep [where w = w and u = u and c = c and ctx = ctx and ds = ds]
  by (auto simp: ListenForNotify_def split: option.splits prod.splits)

lemma snapshot_release_indep:
  "listDestinationAccessWithMaxUpdateIndex (w\<lparr>UnlistenErr := u, ReleaseConnErr := c\<rparr>) n name
     = listDestinationAccessWithMaxUpdateIndex w n name"
  by (simp add: listDestinationAccessWithMaxUpdateIndex_def Let_def
      split: option.splits sum.splits)

lemma withListener_release_indep:
  "withListener (w\<lparr>UnlistenErr := u, ReleaseConnErr := c\<rparr>) r = withListener w r"
  by (simp add: withListener_def snapshot_release_indep WaitForNotification_def
      split: prod.splits sum.splits option.splits)

text \<open>
  C5. Once the listener of a blocking call is registered, whatever the reads, the wait
  (notification, deadline, cancellation or another error) and the release report: the
  last actions of the handler are those of \<open>Listener.Release\<close>, called with a context
  derived from the background context (not from the request's) with a timeout of one
  minute, that is 60 seconds; \<open>Release\<close> executes \<open>UNLISTEN *\<close> and then returns the
  connection to the pool, also when \<open>UNLISTEN *\<close> failed; a failure of the release is
  logged, and the handler returns what it would return with a release that succeeds.
\<close>

theorem ListDestinationAccess_releases_listener:
  assumes "LastUpdateIndex r \<noteq> 0"
    and "IsAuthorized rCtx [InfraAdminRole, InfraViewRole, InfraConnectorRole] = None"
    and "GetDestination w RequestTxn (ReqName r) = Inr dest"
    and "ListGrants w RequestTxn (ReqName r) = Inr grants"
    and "RollbackErr w RequestTxn = None"
    and "fst (ListenForNotify w RequestCtx (channelsFor w dest grants)) = None"
  shows "(\<exists>before. snd (ListDestinationAccess w rCtx r) =
            before
            @ [LogDebug ''unlisten *'',
               Exec (WithTimeout Background Minute) ''UNLISTEN *'' [],
               ReleaseConn]
            @ (if UnlistenErr w = None \<and> ReleaseConnErr w = None then []
               else [LogError ''failed to release listener conn'']))
   \<and> Minute = 60 * Second
   \<and> fst (ListDestinationAccess w rCtx r) = fst (withListener w r)
   \<and> fst (ListDestinationAccess (w\<lparr>UnlistenErr := None, ReleaseConnErr := None\<rparr>) rCtx r)
       = fst (ListDestinationAccess w rCtx r)"
proof -
  let ?w = "w\<lparr>UnlistenErr := None, ReleaseConnErr := None\<rparr>"
  note l = ListDestinationAccess_listening [OF assms]
  have tr: "\<exists>before. snd (ListDestinationAccess w rCtx r) =
            before
            @ [LogDebug ''unlisten *'',
               Exec (WithTimeout Background Minute) ''UNLISTEN *'' [],
               ReleaseConn]
            @ (if UnlistenErr w = None \<and> ReleaseConnErr w = None then []
               else [LogError ''failed to release listener conn''])"
    by (rule exI [where x = "Rollback RequestTxn
          # snd (ListenForNotify w RequestCtx (channelsFor w dest grants))
          @ snd (withListener w r)"])
       (simp add: l Release_def Let_def split: option.splits)
  have ch: "channelsFor ?w dest grants = channelsFor w dest grants"
    by (simp add: channelsFor_def)
  have "fst (ListenForNotify ?w RequestCtx (channelsFor ?w dest grants)) = None"
    using assms(6) by (simp only: ch ListenForNotify_release_indep)
  with assms have "ListDestinationAccess ?w rCtx r =
     (fst (withListener ?w r),
      Rollback RequestTxn # snd (ListenForNotify ?w RequestCtx (channelsFor ?w dest grants))
      @ snd (withListener ?w r) @ snd (Release ?w (WithTimeout Background Minute))
      @ (case fst (Release ?w (WithTimeout Background Minute)) of
           Some _ \<Rightarrow> [LogError ''failed to release listener conn'']
         | None \<Rightarrow> []))"
    by (intro ListDestinationAccess_listening) simp_all
  then have "fst (ListDestinationAccess ?w rCtx r) = fst (withListener w r)"
    by (simp add: withListener_release_indep)
  with tr l show ?thesis by (simp add: Minute_def)
qed

theorem ListDestinationAccess_releases_listener_witness:
  "snd (ListDestinationAccess (testWorld\<lparr>WaitErr := Some ErrCanceled, UnlistenErr := Some ErrCanceled\<rparr>)
          connectorCtx \<lparr>ReqName = ''cluster'', LastUpdateIndex = 5\<rparr>)
     = [Rollback RequestTxn, AcquireConn,
        Exec RequestCtx ''SELECT listen_on_chan($1)'' [''grantsByDest.i.ii''],
        Exec RequestCtx ''SELECT listen_on_chan($1)'' [''group_membership.i.iii''],
        Begin RequestCtx 0, Rollback (ReadTx 0), Wait RequestCtx,
        LogDebug ''unlisten *'',
        Exec (WithTimeout Background Minute) ''UNLISTEN *'' [],
        ReleaseConn,
        LogError ''failed to release listener conn'']
   \<and> fst (ListDestinationAccess (testWorld\<lparr>WaitErr := Some ErrCanceled, UnlistenErr := Some ErrCanceled\<rparr>)
          connectorCtx \<lparr>ReqName = ''cluster'', LastUpdateIndex = 5\<rparr>)
     = (Some \<lparr>Items = destinationAccessToAPI [alice], Index = 5\<rparr>,
        Some (Wrap ''waiting for notify'' ErrCanceled))
   \<and> fst (ListDestinationAccess (testWorld\<lparr>WaitErr := Some ErrCanceled, UnlistenErr := None,
             ReleaseConnErr := None\<rparr>)
          connectorCtx \<lparr>ReqName = ''cluster'', LastUpdateIndex = 5\<rparr>)
     = (Some \<lparr>Items = destinationAccessToAPI [alice], Index = 5\<rparr>,
        Some (Wrap ''waiting for notify'' ErrCanceled))"
proof -
  let ?d = "\<lparr>DestinationID = 2, DestinationName = ''cluster''\<rparr>"
  let ?g = "[\<lparr>GrantSubject = \<lparr>SubjectKindOf = SubjectKindGroup, SubjectID = 3\<rparr>,
              GrantPrivilege = ''view'', GrantResource = ''cluster''\<rparr>]"
  let ?w = "testWorld\<lparr>WaitErr := Some ErrCanceled, UnlistenErr := Some ErrCanceled\<rparr>"
  let ?r = "\<lparr>ReqName = ''cluster'', LastUpdateIndex = 5\<rparr>"
  have a: "IsAuthorized connectorCtx [InfraAdminRole, InfraViewRole, InfraConnectorRole] = None"
    by (simp add: IsAuthorized_def connectorCtx_def)
  have n: "LastUpdateIndex ?r \<noteq> 0" by simp
  have w: "GetDestination ?w RequestTxn (ReqName ?r) = Inr ?d"
    "ListGrants ?w RequestTxn (ReqName ?r) = Inr ?g"
    "RollbackErr ?w RequestTxn = None"
    "fst (ListenForNotify ?w RequestCtx (channelsFor ?w ?d ?g)) = None"
    by (simp_all add: testWorld_def ListenForNotify_def channelsFor_def)
  have t: "ListDestinationAccess ?w connectorCtx ?r
     = ((Some \<lparr>Items = destinationAccessToAPI [alice], Index = 5\<rparr>,
         Some (Wrap ''waiting for notify'' ErrCanceled)),
        [Rollback RequestTxn, AcquireConn,
        Exec RequestCtx ''SELECT listen_on_chan($1)'' [''grantsByDest.i.ii''],
        Exec RequestCtx ''SELECT listen_on_chan($1)'' [''group_membership.i.iii''],
        Begin RequestCtx 0, Rollback (ReadTx 0), Wait RequestCtx,
        LogDebug ''unlisten *'',
        Exec (WithTimeout Background Minute) ''UNLISTEN *'' [],
        ReleaseConn,
        LogError ''failed to release listener conn''])"
    by (simp add: ListDestinationAccess_def withListener_def
        listDestinationAccessWithMaxUpdateIndex_def ListenForNotify_def Release_def
        WaitForNotification_def channelsFor_def IsAuthorized_def connectorCtx_def
        testWorld_def Let_def numeral_2_eq_2 numeral_3_eq_3)
  from ListDestinationAccess_releases_listener [OF n a w] t
  show ?thesis by simp
qed

subsection \<open>Secret providers\<close>

lemma isABaseSecretStorageKind_iff:
  "isABaseSecretStorageKind s \<longleftrightarrow> s \<in> {''env'', ''file'', ''plaintext'', ''kubernetes''}"
  by (auto simp: isABaseSecretStorageKind_def baseSecretStorageKinds_def)

lemma loadBaseKinds_filter:
  "loadBaseKinds l cfg st
     = loadInOrder l (filter (\<lambda>s. isABaseSecretStorageKind (SecretKind s)) cfg) st"
  by (induction cfg arbitrary: st) (auto split: prod.splits option.splits)

lemma loadOtherKinds_filter:
  "loadOtherKinds l cfg st
     = loadInOrder l (filter (\<lambda>s. \<not> isABaseSecretStorageKind (SecretKind s)) cfg) st"
  by (induction cfg arbitrary: st) (auto split: prod.splits option.splits)

lemmas loadKind_defs = loadVault_def loadAWSSSM_def loadAWSSecretsManager_def
  loadKubernetes_def loadGeneric_def loadFile_def

text \<open>An entry is loaded under its name or not at all.\<close>

lemma loadVault_cases: "loadedOrFailed (loadVault l st name c) st name"
  by (cases c) (auto simp: loadVault_def loadedOrFailed_def Let_def split: sum.splits)

lemma loadAWSSSM_cases: "loadedOrFailed (loadAWSSSM l st name c) st name"
  by (cases c) (auto simp: loadAWSSSM_def loadedOrFailed_def split: sum.splits)

lemma loadAWSSecretsManager_cases: "loadedOrFailed (loadAWSSecretsManager l st name c) st name"
  by (cases c) (auto simp: loadAWSSecretsManager_def loadedOrFailed_def split: sum.splits)

lemma loadKubernetes_cases: "loadedOrFailed (loadKubernetes l st name c) st name"
  by (cases c) (auto simp: loadKubernetes_def loadedOrFailed_def Let_def split: sum.splits)

lemma loadGeneric_cases: "loadedOrFailed (loadGeneric new st name c) st name"
  by (cases c) (auto simp: loadGeneric_def loadedOrFailed_def)

lemma loadFile_cases: "loadedOrFailed (loadFile st name c) st name"
  by (cases c) (auto simp: loadFile_def loadedOrFailed_def)

lemma loadSecretConfig_loadedOrFailed:
  "loadedOrFailed (loadSecretConfig l st s) st (secretConfigName s)"
  unfolding loadSecretConfig_def Let_def
  by (simp add: loadVault_cases loadAWSSSM_cases loadAWSSecretsManager_cases
      loadKubernetes_cases loadGeneric_cases loadFile_cases)
     (simp add: loadedOrFailed_def)

lemma loadSecretConfig_duplicate:
  "st (secretConfigName s) \<noteq> None \<Longrightarrow> fst (loadSecretConfig l st s) \<noteq> None"
  by (simp add: loadSecretConfig_def Let_def)

lemma loadSecretConfig_unknown:
  "SecretKind s \<notin> set knownSecretKinds \<Longrightarrow> fst (loadSecretConfig l st s) \<noteq> None"
  by (simp add: loadSecretConfig_def Let_def knownSecretKinds_def)

lemma loadSecretConfig_cases:
  "(fst (loadSecretConfig l st s) \<noteq> None \<and> snd (loadSecretConfig l st s) = st)
   \<or> (fst (loadSecretConfig l st s) = None \<and> st (secretConfigName s) = None
       \<and> SecretKind s \<in> set knownSecretKinds
       \<and> (\<exists>p. snd (loadSecretConfig l st s) = st(secretConfigName s \<mapsto> p)))"
  using loadSecretConfig_loadedOrFailed [of l st s] loadSecretConfig_duplicate [of st s l]
    loadSecretConfig_unknown [of s l st]
  unfolding loadedOrFailed_def by blast

lemma loadSecretConfig_mono:
  "st n \<noteq> None \<Longrightarrow> snd (loadSecretConfig l st s) n = st n"
  using loadSecretConfig_cases [of l st s] by auto

lemma loadInOrder_mono:
  "st n \<noteq> None \<Longrightarrow> snd (loadInOrder l cfg st) n = st n"
proof (induction cfg arbitrary: st)
  case Nil
  then show ?case by simp
next
  case (Cons s cfg)
  from Cons.prems have k: "snd (loadSecretConfig l st s) n = st n"
    by (rule loadSecretConfig_mono)
  show ?case
  proof (cases "loadSecretConfig l st s")
    case (Pair r st')
    with k Cons.prems have "st' n = st n" "st' n \<noteq> None" by auto
    with Cons.IH [of st'] Pair show ?thesis
      by (auto split: option.splits)
  qed
qed

lemma loadInOrder_present:
  "s \<in> set cfg \<Longrightarrow> st (secretConfigName s) \<noteq> None \<Longrightarrow> fst (loadInOrder l cfg st) \<noteq> None"
proof (induction cfg arbitrary: st)
  case Nil
  then show ?case by simp
next
  case (Cons a cfg)
  show ?case
  proof (cases "loadSecretConfig l st a")
    case (Pair r st')
    show ?thesis
    proof (cases r)
      case (Some e)
      with Pair show ?thesis by simp
    next
      case None
      have keep: "st' (secretConfigName s) \<noteq> None"
        using loadSecretConfig_mono [where st = st and n = "secretConfigName s" and l = l and s = a]
          Pair Cons.prems(2) by simp
      show ?thesis
      proof (cases "s = a")
        case True
        with loadSecretConfig_duplicate [where st = st and s = s and l = l] Cons.prems(2)
          Pair None show ?thesis
          by simp
      next
        case False
        with Cons.prems(1) have "s \<in> set cfg" by simp
        from Cons.IH [where st = st'] this keep Pair None show ?thesis by simp
      qed
    qed
  qed
qed

lemma loadInOrder_loaded:
  "s \<in> set cfg \<Longrightarrow> fst (loadInOrder l cfg st) = None \<Longrightarrow>
   snd (loadInOrder l cfg st) (secretConfigName s) \<noteq> None"
proof (induction cfg arbitrary: st)
  case Nil
  then show ?case by simp
next
  case (Cons a cfg)
  show ?case
  proof (cases "loadSecretConfig l st a")
    case (Pair r st')
    with Cons.prems(2) have r: "r = None" and rest: "fst (loadInOrder l cfg st') = None"
      by (auto split: option.splits)
    show ?thesis
    proof (cases "s = a")
      case True
      from loadSecretConfig_cases [of l st a] Pair r
      have "st' (secretConfigName a) \<noteq> None" by auto
      from loadInOrder_mono [where st = st' and n = "secretConfigName a" and l = l and cfg = cfg]
        this True Pair r show ?thesis by simp
    next
      case False
      with Cons.prems(1) have "s \<in> set cfg" by simp
      from Cons.IH [OF this rest] Pair r show ?thesis by simp
    qed
  qed
qed

lemma loadInOrder_unknown:
  "s \<in> set cfg \<Longrightarrow> SecretKind s \<notin> set knownSecretKinds \<Longrightarrow> fst (loadInOrder l cfg st) \<noteq> None"
proof (induction cfg arbitrary: st)
  case Nil
  then show ?case by simp
next
  case (Cons a cfg)
  show ?case
  proof (cases "loadSecretConfig l st a")
    case (Pair r st')
    show ?thesis
    proof (cases "s = a")
      case True
      with loadSecretConfig_unknown [where s = s and l = l and st = st] Cons.prems(2) Pair
      show ?thesis
        by (auto split: option.splits)
    next
      case False
      with Cons.prems(1) have "s \<in> set cfg" by simp
      from Cons.IH [OF this Cons.prems(2), of st'] Pair show ?thesis
        by (auto split: option.splits)
    qed
  qed
qed

lemma installDefault_apply:
  "installDefault st k v n = (if n = k \<and> st k = None then Some v else st n)"
  by (simp add: installDefault_def)

lemma defaults_installed:
  "installDefault (installDefault (installDefault st
       ''env'' (EnvSecretProvider (GenericConfig False False False)))
       ''file'' (FileSecretProvider (FileConfig (GenericConfig False False False) '''')))
       ''plaintext'' (PlainSecretProvider (GenericConfig False False False))
     = defaultSecretStorage ++ st"
  by (rule ext) (simp add: installDefault_apply defaultSecretStorage_def map_add_def
      split: option.splits)

lemma loadDefaultSecretConfig_eq:
  "loadDefaultSecretConfig l st =
     (if st ''kubernetes'' = None then
        (case LookupEnv l ''KUBERNETES_SERVICE_HOST'' of
           Some _ \<Rightarrow>
             (case NewKubernetesSecretProviderFromConfig l (NewKubernetesConfig l) of
                Inl e \<Rightarrow> (Some (Wrap ''creating k8s secret provider'' e), defaultSecretStorage ++ st)
              | Inr k8s \<Rightarrow> (None, (defaultSecretStorage ++ st)(''kubernetes'' \<mapsto> k8s)))
         | None \<Rightarrow> (None, defaultSecretStorage ++ st))
      else (None, defaultSecretStorage ++ st))"
proof -
  have k: "(defaultSecretStorage ++ st) ''kubernetes'' = st ''kubernetes''"
    by (simp add: defaultSecretStorage_def map_add_def split: option.splits)
  have "loadDefaultSecretConfig l st =
     (let st3 = installDefault (installDefault (installDefault st
       ''env'' (EnvSecretProvider (GenericConfig False False False)))
       ''file'' (FileSecretProvider (FileConfig (GenericConfig False False False) '''')))
       ''plaintext'' (PlainSecretProvider (GenericConfig False False False))
      in if st3 ''kubernetes'' = None then
           (case LookupEnv l ''KUBERNETES_SERVICE_HOST'' of
              Some _ \<Rightarrow>
                (case NewKubernetesSecretProviderFromConfig l (NewKubernetesConfig l) of
                   Inl e \<Rightarrow> (Some (Wrap ''creating k8s secret provider'' e), st3)
                 | Inr k8s \<Rightarrow> (None, st3(''kubernetes'' \<mapsto> k8s)))
            | None \<Rightarrow> (None, st3))
         else (None, st3))"
    by (simp only: loadDefaultSecretConfig_def installDefault_def Let_def)
  then show ?thesis
    by (simp only: defaults_installed Let_def k)
qed

lemma defaultSecretStorage_kubernetes: "defaultSecretStorage ''kubernetes'' = None"
  by (simp add: defaultSecretStorage_def)

lemma loadDefaultSecretConfig_mono:
  "st n \<noteq> None \<Longrightarrow> snd (loadDefaultSecretConfig l st) n = st n"
  by (auto simp: loadDefaultSecretConfig_eq map_add_def split: option.splits sum.splits)

lemma loadDefaultSecretConfig_outcome:
  "fst (loadDefaultSecretConfig l st) = None \<Longrightarrow>
   snd (loadDefaultSecretConfig l st) n =
     (if n = ''kubernetes'' \<and> st ''kubernetes'' = None
      then (case LookupEnv l ''KUBERNETES_SERVICE_HOST'' of
              None \<Rightarrow> None
            | Some _ \<Rightarrow>
                (case NewKubernetesSecretProviderFromConfig l (NewKubernetesConfig l) of
                   Inl e \<Rightarrow> None
                 | Inr k8s \<Rightarrow> Some k8s))
      else (defaultSecretStorage ++ st) n)"
  by (auto simp: loadDefaultSecretConfig_eq map_add_def defaultSecretStorage_kubernetes
      split: option.splits sum.splits)

lemma loadDefaultSecretConfig_fails:
  "fst (loadDefaultSecretConfig l st) \<noteq> None \<longleftrightarrow>
   st ''kubernetes'' = None \<and> LookupEnv l ''KUBERNETES_SERVICE_HOST'' \<noteq> None
   \<and> (\<exists>e. NewKubernetesSecretProviderFromConfig l (NewKubernetesConfig l) = Inl e)"
  by (auto simp: loadDefaultSecretConfig_eq split: option.splits sum.splits)

lemma loadInOrder_not_distinct:
  "\<not> distinct (map secretConfigName cfg) \<Longrightarrow> fst (loadInOrder l cfg st) \<noteq> None"
proof (induction cfg arbitrary: st)
  case Nil
  then show ?case by simp
next
  case (Cons a cfg)
  show ?case
  proof (cases "loadSecretConfig l st a")
    case (Pair r st')
    show ?thesis
    proof (cases r)
      case (Some e)
      with Pair show ?thesis by simp
    next
      case None
      show ?thesis
      proof (cases "secretConfigName a \<in> set (map secretConfigName cfg)")
        case True
        then obtain s where s: "s \<in> set cfg" "secretConfigName s = secretConfigName a"
          by auto
        from loadSecretConfig_cases [of l st a] Pair None
        have "st' (secretConfigName a) \<noteq> None" by auto
        with s have "st' (secretConfigName s) \<noteq> None" by simp
        with loadInOrder_present [where s = s and cfg = cfg and st = st' and l = l] s(1)
        have "fst (loadInOrder l cfg st') \<noteq> None" by simp
        with Pair None show ?thesis by simp
      next
        case False
        with Cons.prems have "\<not> distinct (map secretConfigName cfg)" by simp
        from Cons.IH [OF this, of st'] Pair None show ?thesis by simp
      qed
    qed
  qed
qed

lemma distinct_map_filter_partition:
  "distinct (map f (filter P xs)) \<Longrightarrow> distinct (map f (filter (\<lambda>x. \<not> P x) xs)) \<Longrightarrow>
   (\<And>a b. a \<in> set xs \<Longrightarrow> P a \<Longrightarrow> b \<in> set xs \<Longrightarrow> \<not> P b \<Longrightarrow> f a \<noteq> f b) \<Longrightarrow>
   distinct (map f xs)"
proof (induction xs)
  case Nil
  show ?case by simp
next
  case (Cons x xs)
  have d: "distinct (map f xs)"
    using Cons.prems by (intro Cons.IH) (auto split: if_splits)
  have "f x \<notin> f ` set xs"
  proof
    assume "f x \<in> f ` set xs"
    then obtain y where y: "y \<in> set xs" "f y = f x" by auto
    show False
    proof (cases "P x = P y")
      case True
      with y Cons.prems(1,2) show False
        by (cases "P x") (auto simp: image_iff)
    next
      case False
      with y Cons.prems(3) [of x y] Cons.prems(3) [of y x] show False
        by (cases "P x") auto
    qed
  qed
  with d show ?case by simp
qed

text \<open>The two loops of \<open>importSecrets\<close> as passes over the base and the other entries.\<close>

lemma importSecrets_passes:
  "importSecrets l cfg st =
     (case loadInOrder l (filter (\<lambda>s. isABaseSecretStorageKind (SecretKind s)) cfg) st of
        (Some e, st1) \<Rightarrow> (Some e, st1)
      | (None, st1) \<Rightarrow>
          (case loadDefaultSecretConfig l st1 of
             (Some e, st2) \<Rightarrow> (Some e, st2)
           | (None, st2) \<Rightarrow>
               loadInOrder l (filter (\<lambda>s. \<not> isABaseSecretStorageKind (SecretKind s)) cfg) st2))"
  by (simp add: importSecrets_def loadBaseKinds_filter loadOtherKinds_filter
      split: prod.splits option.splits)

lemma importSecrets_ok_passes:
  assumes "fst (importSecrets l cfg st) = None"
  shows "\<exists>st1 st2.
      loadInOrder l (filter (\<lambda>s. isABaseSecretStorageKind (SecretKind s)) cfg) st = (None, st1)
      \<and> loadDefaultSecretConfig l st1 = (None, st2)
      \<and> fst (loadInOrder l (filter (\<lambda>s. \<not> isABaseSecretStorageKind (SecretKind s)) cfg) st2) = None"
  using assms unfolding importSecrets_passes
  by (auto split: prod.splits option.splits)

lemma importSecrets_duplicate:
  assumes "\<not> distinct (map secretConfigName cfg)"
  shows "fst (importSecrets l cfg st) \<noteq> None"
proof
  assume "fst (importSecrets l cfg st) = None"
  let ?B = "filter (\<lambda>s. isABaseSecretStorageKind (SecretKind s)) cfg"
  let ?N = "filter (\<lambda>s. \<not> isABaseSecretStorageKind (SecretKind s)) cfg"
  from importSecrets_ok_passes [OF \<open>fst (importSecrets l cfg st) = None\<close>]
  obtain st1 st2 where p1: "loadInOrder l ?B st = (None, st1)"
    and d: "loadDefaultSecretConfig l st1 = (None, st2)"
    and p2: "fst (loadInOrder l ?N st2) = None"
    by blast
  from p1 have dB: "distinct (map secretConfigName ?B)"
    using loadInOrder_not_distinct [of ?B l st] by auto
  from p2 have dN: "distinct (map secretConfigName ?N)"
    using loadInOrder_not_distinct [of ?N l st2] by auto
  have cross: "secretConfigName a \<noteq> secretConfigName b"
    if a: "a \<in> set cfg" "isABaseSecretStorageKind (SecretKind a)"
      and b: "b \<in> set cfg" "\<not> isABaseSecretStorageKind (SecretKind b)" for a b
  proof
    assume eq: "secretConfigName a = secretConfigName b"
    from a have "a \<in> set ?B" by simp
    with loadInOrder_loaded [where s = a and cfg = ?B and l = l and st = st] p1
    have "st1 (secretConfigName a) \<noteq> None" by simp
    with loadDefaultSecretConfig_mono [where st = st1 and n = "secretConfigName a" and l = l] d
    have "st2 (secretConfigName a) \<noteq> None" by simp
    with eq have "st2 (secretConfigName b) \<noteq> None" by simp
    moreover from b have "b \<in> set ?N" by simp
    ultimately have "fst (loadInOrder l ?N st2) \<noteq> None"
      using loadInOrder_present [where s = b and cfg = ?N and st = st2 and l = l] by simp
    with p2 show False by simp
  qed
  from distinct_map_filter_partition
         [where f = secretConfigName and P = "\<lambda>s. isABaseSecretStorageKind (SecretKind s)"
            and xs = cfg, OF dB dN cross]
  have "distinct (map secretConfigName cfg)" by simp
  with assms show False by simp
qed

lemma importSecrets_unknown:
  assumes "s \<in> set cfg" and "SecretKind s \<notin> set knownSecretKinds"
  shows "fst (importSecrets l cfg st) \<noteq> None"
proof
  assume "fst (importSecrets l cfg st) = None"
  let ?B = "filter (\<lambda>s. isABaseSecretStorageKind (SecretKind s)) cfg"
  let ?N = "filter (\<lambda>s. \<not> isABaseSecretStorageKind (SecretKind s)) cfg"
  from importSecrets_ok_passes [OF \<open>fst (importSecrets l cfg st) = None\<close>]
  obtain st1 st2 where p1: "loadInOrder l ?B st = (None, st1)"
    and p2: "fst (loadInOrder l ?N st2) = None"
    by blast
  from assms(1) have "s \<in> set ?B \<or> s \<in> set ?N" by auto
  then show False
  proof
    assume "s \<in> set ?B"
    with loadInOrder_unknown [where s = s and cfg = ?B and l = l and st = st] assms(2) p1
    show False by simp
  next
    assume "s \<in> set ?N"
    with loadInOrder_unknown [where s = s and cfg = ?N and l = l and st = st2] assms(2) p2
    show False by simp
  qed
qed

text \<open>
  C6 (as stated). A default kubernetes provider is claimed to be installed exactly when
  \<open>KUBERNETES_SERVICE_HOST\<close> is set. With the variable set and a configured provider of
  kind kubernetes for the namespace \<open>prod\<close>, loading succeeds and the storage named
  \<open>kubernetes\<close> is the configured one, not the default one.
\<close>

theorem importSecrets_keeps_configured_kubernetes:
  "LookupEnv testSecretsLib ''KUBERNETES_SERVICE_HOST'' = Some ''10.0.0.1''
   \<and> fst (importSecrets testSecretsLib
            [\<lparr>SecretKind = ''kubernetes'', SecretName = '''',
              SecretConfig = KubernetesCfg (KubernetesConfig ''prod'')\<rparr>] Map.empty) = None
   \<and> snd (importSecrets testSecretsLib
            [\<lparr>SecretKind = ''kubernetes'', SecretName = '''',
              SecretConfig = KubernetesCfg (KubernetesConfig ''prod'')\<rparr>] Map.empty) ''kubernetes''
       = Some (KubernetesSecretProvider (KubernetesConfig ''prod''))
   \<and> NewKubernetesSecretProviderFromConfig testSecretsLib (NewKubernetesConfig testSecretsLib)
       = Inr (KubernetesSecretProvider (KubernetesConfig ''default''))"
  by (simp add: importSecrets_def loadSecretConfig_def loadKubernetes_def secretConfigName_def
      isABaseSecretStorageKind_def baseSecretStorageKinds_def loadDefaultSecretConfig_eq
      testSecretsLib_def Let_def)

text \<open>
  C6 (amended). Loading is two-pass: \<open>importSecrets\<close> loads the entries of the base
  kinds env, file, plaintext and kubernetes in the order of the list, then installs the
  defaults, then loads the other entries in the order of the list, and stops at the first
  error. Installing the defaults keeps every storage that is present, adds the defaults
  for env, file and plaintext where no storage of that name is present and nothing else
  under another name than kubernetes; when no storage named kubernetes is present, the
  default kubernetes provider is installed iff \<open>KUBERNETES_SERVICE_HOST\<close> is set, and when
  one is present it is kept. Two entries with the same name (the kind, where no name is
  given) or an entry of an unknown kind make loading fail.
\<close>

theorem importSecrets_two_pass:
  "importSecrets l cfg st =
     (case loadInOrder l (filter (\<lambda>s. isABaseSecretStorageKind (SecretKind s)) cfg) st of
        (Some e, st1) \<Rightarrow> (Some e, st1)
      | (None, st1) \<Rightarrow>
          (case loadDefaultSecretConfig l st1 of
             (Some e, st2) \<Rightarrow> (Some e, st2)
           | (None, st2) \<Rightarrow>
               loadInOrder l (filter (\<lambda>s. \<not> isABaseSecretStorageKind (SecretKind s)) cfg) st2))
   \<and> (\<forall>k. isABaseSecretStorageKind k \<longleftrightarrow>
             k = ''env'' \<or> k = ''file'' \<or> k = ''plaintext'' \<or> k = ''kubernetes'')
   \<and> (fst (loadDefaultSecretConfig l st) = None \<longrightarrow>
        (\<forall>n. n \<noteq> ''kubernetes'' \<longrightarrow>
              snd (loadDefaultSecretConfig l st) n = (defaultSecretStorage ++ st) n)
        \<and> (st ''kubernetes'' \<noteq> None \<longrightarrow>
              snd (loadDefaultSecretConfig l st) ''kubernetes'' = st ''kubernetes'')
        \<and> (st ''kubernetes'' = None \<longrightarrow>
              (snd (loadDefaultSecretConfig l st) ''kubernetes'' \<noteq> None
                 \<longleftrightarrow> LookupEnv l ''KUBERNETES_SERVICE_HOST'' \<noteq> None)
              \<and> (\<forall>k8s. snd (loadDefaultSecretConfig l st) ''kubernetes'' = Some k8s \<longrightarrow>
                    NewKubernetesSecretProviderFromConfig l (NewKubernetesConfig l) = Inr k8s)))
   \<and> (\<not> distinct (map secretConfigName cfg) \<longrightarrow> fst (importSecrets l cfg st) \<noteq> None)
   \<and> (\<forall>s. s \<in> set cfg \<and> SecretKind s \<notin> set knownSecretKinds \<longrightarrow>
          fst (importSecrets l cfg st) \<noteq> None)"
proof -
  have defaults: "(\<forall>n. n \<noteq> ''kubernetes'' \<longrightarrow>
              snd (loadDefaultSecretConfig l st) n = (defaultSecretStorage ++ st) n)
        \<and> (st ''kubernetes'' \<noteq> None \<longrightarrow>
              snd (loadDefaultSecretConfig l st) ''kubernetes'' = st ''kubernetes'')
        \<and> (st ''kubernetes'' = None \<longrightarrow>
              (snd (loadDefaultSecretConfig l st) ''kubernetes'' \<noteq> None
                 \<longleftrightarrow> LookupEnv l ''KUBERNETES_SERVICE_HOST'' \<noteq> None)
              \<and> (\<forall>k8s. snd (loadDefaultSecretConfig l st) ''kubernetes'' = Some k8s \<longrightarrow>
                    NewKubernetesSecretProviderFromConfig l (NewKubernetesConfig l) = Inr k8s))"
    if ok: "fst (loadDefaultSecretConfig l st) = None"
  proof (intro conjI allI impI)
    note o = loadDefaultSecretConfig_outcome [OF ok]
    have f: "\<not> (st ''kubernetes'' = None \<and> LookupEnv l ''KUBERNETES_SERVICE_HOST'' \<noteq> None
       \<and> (\<exists>e. NewKubernetesSecretProviderFromConfig l (NewKubernetesConfig l) = Inl e))"
      using ok loadDefaultSecretConfig_fails [of l st] by blast
    {
      fix n :: string assume "n \<noteq> ''kubernetes''"
      then show "snd (loadDefaultSecretConfig l st) n = (defaultSecretStorage ++ st) n"
        by (simp add: o)
    next
      assume "st ''kubernetes'' \<noteq> None"
      then show "snd (loadDefaultSecretConfig l st) ''kubernetes'' = st ''kubernetes''"
        by (rule loadDefaultSecretConfig_mono)
    next
      assume n: "st ''kubernetes'' = None"
      with f show "(snd (loadDefaultSecretConfig l st) ''kubernetes'' \<noteq> None)
          = (LookupEnv l ''KUBERNETES_SERVICE_HOST'' \<noteq> None)"
        by (auto simp: o split: option.splits sum.splits)
    next
      fix k8s
      assume n: "st ''kubernetes'' = None"
        and s: "snd (loadDefaultSecretConfig l st) ''kubernetes'' = Some k8s"
      from s n show "NewKubernetesSecretProviderFromConfig l (NewKubernetesConfig l) = Inr k8s"
        by (auto simp: o split: option.splits sum.splits)
    }
  qed
  have base: "\<forall>k. isABaseSecretStorageKind k \<longleftrightarrow>
             k = ''env'' \<or> k = ''file'' \<or> k = ''plaintext'' \<or> k = ''kubernetes''"
    by (simp add: isABaseSecretStorageKind_iff)
  from importSecrets_passes [of l cfg st] base defaults
    importSecrets_duplicate [of cfg l st] importSecrets_unknown [of _ cfg l st]
  show ?thesis by blast
qed

theorem importSecrets_two_pass_witness:
  "fst (loadDefaultSecretConfig testSecretsLib Map.empty) = None
   \<and> snd (loadDefaultSecretConfig testSecretsLib Map.empty) ''env''
       = Some (EnvSecretProvider (GenericConfig False False False))
   \<and> snd (loadDefaultSecretConfig testSecretsLib Map.empty) ''kubernetes''
       = Some (KubernetesSecretProvider (KubernetesConfig ''default''))
   \<and> snd (loadDefaultSecretConfig (testSecretsLib\<lparr>LookupEnv := (\<lambda>n. None)\<rparr>) Map.empty)
        ''kubernetes'' = None
   \<and> fst (importSecrets testSecretsLib
            [\<lparr>SecretKind = ''env'', SecretName = ''mine'',
              SecretConfig = GenericCfg (GenericConfig True False False)\<rparr>,
             \<lparr>SecretKind = ''file'', SecretName = ''mine'',
              SecretConfig = FileCfg (FileConfig (GenericConfig False False False) ''/etc'')\<rparr>]
            Map.empty) \<noteq> None
   \<and> fst (importSecrets testSecretsLib
            [\<lparr>SecretKind = ''bogus'', SecretName = '''', SecretConfig = OtherConfig\<rparr>]
            Map.empty) \<noteq> None"
proof -
  let ?dup = "[\<lparr>SecretKind = ''env'', SecretName = ''mine'',
              SecretConfig = GenericCfg (GenericConfig True False False)\<rparr>,
             \<lparr>SecretKind = ''file'', SecretName = ''mine'',
              SecretConfig = FileCfg (FileConfig (GenericConfig False False False) ''/etc'')\<rparr>]"
  let ?b = "\<lparr>SecretKind = ''bogus'', SecretName = '''', SecretConfig = OtherConfig\<rparr>"
  let ?off = "testSecretsLib\<lparr>LookupEnv := (\<lambda>n. None)\<rparr>"
  have ok: "fst (loadDefaultSecretConfig testSecretsLib Map.empty) = None"
    "fst (loadDefaultSecretConfig ?off Map.empty) = None"
    by (simp_all add: loadDefaultSecretConfig_eq testSecretsLib_def)
  have e: "LookupEnv testSecretsLib ''KUBERNETES_SERVICE_HOST'' \<noteq> None"
    "LookupEnv ?off ''KUBERNETES_SERVICE_HOST'' = None"
    "NewKubernetesSecretProviderFromConfig testSecretsLib (NewKubernetesConfig testSecretsLib)
       = Inr (KubernetesSecretProvider (KubernetesConfig ''default''))"
    "(defaultSecretStorage ++ Map.empty) ''env''
       = Some (EnvSecretProvider (GenericConfig False False False))"
    "(Map.empty :: storage) ''kubernetes'' = None"
    "''env'' \<noteq> ''kubernetes''"
    by (simp_all add: testSecretsLib_def defaultSecretStorage_def)
  have d: "\<not> distinct (map secretConfigName ?dup)"
    by (simp add: secretConfigName_def)
  have u: "?b \<in> set [?b]" "SecretKind ?b \<notin> set knownSecretKinds"
    by (simp_all add: knownSecretKinds_def)
  note t1 = importSecrets_two_pass [of testSecretsLib ?dup Map.empty]
  note t2 = importSecrets_two_pass [of testSecretsLib "[?b]" Map.empty]
  note t3 = importSecrets_two_pass [of ?off "[]" Map.empty]
  note on = mp [OF t1 [THEN conjunct2, THEN conjunct2, THEN conjunct1] ok(1)]
  note off = mp [OF t3 [THEN conjunct2, THEN conjunct2, THEN conjunct1] ok(2)]
  note env = mp [OF spec [OF on [THEN conjunct1], of "''env''"] e(6)]
  note kon = mp [OF on [THEN conjunct2, THEN conjunct2] e(5)]
  note koff = mp [OF off [THEN conjunct2, THEN conjunct2] e(5)]
  from kon [THEN conjunct1] e(1) obtain k8s where k8s:
    "snd (loadDefaultSecretConfig testSecretsLib Map.empty) ''kubernetes'' = Some k8s"
    by auto
  from mp [OF spec [OF kon [THEN conjunct2], of k8s] k8s] e(3) k8s
  have "snd (loadDefaultSecretConfig testSecretsLib Map.empty) ''kubernetes''
       = Some (KubernetesSecretProvider (KubernetesConfig ''default''))"
    by simp
  moreover from env e(4) have "snd (loadDefaultSecretConfig testSecretsLib Map.empty) ''env''
       = Some (EnvSecretProvider (GenericConfig False False False))"
    by simp
  moreover from koff [THEN conjunct1] e(2)
  have "snd (loadDefaultSecretConfig ?off Map.empty) ''kubernetes'' = None"
    by simp
  moreover have "fst (importSecrets testSecretsLib ?dup Map.empty) \<noteq> None"
    using mp [OF t1 [THEN conjunct2, THEN conjunct2, THEN conjunct2, THEN conjunct1] d] .
  moreover have "fst (importSecrets testSecretsLib [?b] Map.empty) \<noteq> None"
    using mp [OF spec [OF t2 [THEN conjunct2, THEN conjunct2, THEN conjunct2, THEN conjunct2],
                of ?b] conjI [OF u]] .
  ultimately show ?thesis using ok(1) by (intro conjI)
qed

subsection \<open>Provider reconciliation\<close>

lemma foldr_max_ge: "x \<in> set xs \<Longrightarrow> x \<le> foldr max xs (0::nat)"
  by (induction xs) (auto simp: max_def)

lemma newProviderID_fresh: "q \<in> set t \<Longrightarrow> ProviderRowID q \<noteq> newProviderID t"
proof
  assume q: "q \<in> set t" and e: "ProviderRowID q = newProviderID t"
  from q have "ProviderRowID q \<in> set (map ProviderRowID t)" by simp
  then have "ProviderRowID q \<le> foldr max (map ProviderRowID t) 0" by (rule foldr_max_ge)
  with e show False by (simp add: newProviderID_def)
qed



lemma distinct_map_replace:
  assumes "distinct (map f xs)" and "f y = k"
  shows "distinct (map f (map (\<lambda>q. if f q = k then y else q) xs))"
proof -
  have same: "map f (map (\<lambda>q. if f q = k then y else q) xs) = map f xs"
    using assms(2) by (induction xs) auto
  show ?thesis unfolding same by (rule assms(1))
qed

lemma upsert_distinct:
  assumes "CreateOrUpdateProvider t p = Inr (t', final)"
    and "distinct (map ProviderRowID t)"
  shows "distinct (map ProviderRowID t')"
proof (cases "find (\<lambda>q. liveProvider q \<and> sameProvider p q) t")
  case None
  with assms have t': "t' = t @ [p\<lparr>ProviderRowID := newProviderID t\<rparr>]"
    by (auto simp: CreateOrUpdateProvider_def Let_def)
  have "newProviderID t \<notin> set (map ProviderRowID t)"
  proof
    assume "newProviderID t \<in> set (map ProviderRowID t)"
    then obtain q where "q \<in> set t" and "ProviderRowID q = newProviderID t" by auto
    with newProviderID_fresh show False by blast
  qed
  with assms(2) t' show ?thesis by simp
next
  case (Some ex)
  with assms have t': "t' = map (\<lambda>q. if ProviderRowID q = ProviderRowID ex
                                      then p\<lparr>ProviderRowID := ProviderRowID ex\<rparr> else q) t"
    by (auto simp: CreateOrUpdateProvider_def Let_def)
  show ?thesis unfolding t'
    by (rule distinct_map_replace [OF assms(2)]) simp
qed



lemma loop_distinct:
  "importProviders_loop l t ps k = (None, t', k') \<Longrightarrow> distinct (map ProviderRowID t) \<Longrightarrow>
   distinct (map ProviderRowID t')"
proof (induction ps arbitrary: t k)
  case Nil
  then show ?case by simp
next
  case (Cons p ps)
  from Cons.prems(1) obtain t1 final where
    u: "CreateOrUpdateProvider t (toProvider (cleanupDomain l p)) = Inr (t1, final)"
    and r: "importProviders_loop l t1 ps (k @ [ProviderRowID final]) = (None, t', k')"
    by (auto simp: Let_def split: option.splits sum.splits prod.splits)
  from upsert_distinct [OF u Cons.prems(2)] Cons.IH [OF r] show ?case by simp
qed


lemma loop_keeps_nonempty:
  "importProviders_loop l t ps k = (None, t', k') \<Longrightarrow> ps \<noteq> [] \<or> k \<noteq> [] \<Longrightarrow> k' \<noteq> []"
proof (induction ps arbitrary: t k)
  case Nil
  then show ?case by simp
next
  case (Cons a ps)
  from Cons.prems(1) obtain t1 final where
    u: "CreateOrUpdateProvider t (toProvider (cleanupDomain l a)) = Inr (t1, final)"
    and r: "importProviders_loop l t1 ps (k @ [ProviderRowID final]) = (None, t', k')"
    by (auto simp: Let_def split: option.splits sum.splits prod.splits)
  from Cons.IH [OF r] show ?case by simp
qed

















end
